theory Spec2Isabelle
  imports Complex_Main "HOL-Library.Word"
begin

chapter \<open>Streets: loader pipeline, query builder and soft delete\<close>

text \<open>
  A shallow embedding of \<^verbatim>\<open>src/loadUtils.ts\<close> (value coercion, the row-to-document mapper
  and the bulk loader) and of the API server in \<^verbatim>\<open>src/load.ts\<close> (the query builder, the search handler and
  the logical-delete handler). The TypeScript runs on JavaScript values, so the first
  section models the part of the language the code relies on: strings as sequences of
  UTF-16 code units, Number values, and the conversions \<^verbatim>\<open>Number(x)\<close>, \<^verbatim>\<open>String(x)\<close>,
  \<^verbatim>\<open>trim\<close>, \<^verbatim>\<open>toLowerCase\<close> and \<^verbatim>\<open>Number.isInteger\<close>.
\<close>

section \<open>JavaScript values\<close>

type_synonym code_unit = "16 word"

type_synonym jsstring = "code_unit list"

text \<open>A string literal of the source, as code units (the literals are all ASCII).\<close>

definition js :: "string \<Rightarrow> jsstring" where
  "js s = map of_char s"

text \<open>
  A Number is NaN, an infinity, negative zero, or a finite value, given by its exact
  rational value (\<open>Fin 0\<close> is positive zero).
\<close>

datatype jsnum = NaN | PosInf | NegInf | NegZero | Fin rat

text \<open>
  The values a raw cell, a declared type or a document field can hold. \<open>JSymbol\<close> (with
  its description) stands for the primitive on which \<^verbatim>\<open>Number(x)\<close> throws; the parameter
  \<^verbatim>\<open>raw: unknown\<close> of \<^verbatim>\<open>coerce\<close> admits it. Objects and arrays are not modelled.
\<close>

datatype jsval =
    JUndefined
  | JNull
  | JBool bool
  | JNum jsnum
  | JStr jsstring
  | JSymbol jsstring

text \<open>A thrown value: \<^verbatim>\<open>new Error(message)\<close> or a \<^verbatim>\<open>TypeError\<close> of the runtime.\<close>

datatype error = Error jsstring | TypeError jsstring

definition error_message :: "error \<Rightarrow> jsstring" where
  "error_message e = (case e of Error m \<Rightarrow> m | TypeError m \<Rightarrow> m)"

subsection \<open>Strings\<close>

text \<open>
  White space and line terminators of ECMAScript: what \<^verbatim>\<open>String.prototype.trim\<close> strips
  and what \<^verbatim>\<open>Number(string)\<close> skips at both ends.
\<close>

definition is_ws :: "code_unit \<Rightarrow> bool" where
  "is_ws c \<longleftrightarrow>
     c \<in> {0x09, 0x0A, 0x0B, 0x0C, 0x0D, 0x20, 0xA0, 0x1680, 0x2028, 0x2029,
          0x202F, 0x205F, 0x3000, 0xFEFF}
     \<or> (0x2000 \<le> c \<and> c \<le> 0x200A)"

definition trim :: "jsstring \<Rightarrow> jsstring" where
  "trim s = rev (dropWhile is_ws (rev (dropWhile is_ws s)))"

text \<open>
  \<^verbatim>\<open>toLowerCase\<close> on the ASCII letters. The source only compares the result with the
  literals \<^verbatim>\<open>"true"\<close>, \<^verbatim>\<open>"1"\<close> and \<^verbatim>\<open>"yes"\<close>, and no code unit outside ASCII has one of
  their letters as its lower case, so the other code units are left as they are.
\<close>

definition toLowerCase :: "jsstring \<Rightarrow> jsstring" where
  "toLowerCase s = map (\<lambda>c. if 0x41 \<le> c \<and> c \<le> 0x5A then c + 0x20 else c) s"

subsection \<open>Rounding a mathematical value to binary64\<close>

text \<open>The number of binary digits of \<open>n\<close>.\<close>

fun bitlen :: "nat \<Rightarrow> nat" where
  "bitlen n = (if n = 0 then 0 else Suc (bitlen (n div 2)))"

declare bitlen.simps [simp del]

definition pow2 :: "int \<Rightarrow> rat" where
  "pow2 e = (if 0 \<le> e then 2 ^ nat e else 1 / 2 ^ nat (- e))"

definition pow10 :: "int \<Rightarrow> rat" where
  "pow10 e = (if 0 \<le> e then 10 ^ nat e else 1 / 10 ^ nat (- e))"

text \<open>For \<open>a > 0\<close>, the integer \<open>k\<close> with \<open>2\<^sup>k \<le> a < 2\<^sup>k\<^sup>+\<^sup>1\<close>.\<close>

definition floor_log2 :: "rat \<Rightarrow> int" where
  "floor_log2 a =
     (let (p, q) = quotient_of a;
          k = int (bitlen (nat p)) - int (bitlen (nat q))
      in if pow2 k \<le> a then k else k - 1)"

definition round_half_even :: "rat \<Rightarrow> int" where
  "round_half_even x =
     (let f = \<lfloor>x\<rfloor>; d = x - of_int f
      in if d < 1 / 2 then f
         else if 1 / 2 < d then f + 1
         else if even f then f else f + 1)"

definition signed_zero :: "bool \<Rightarrow> jsnum" where
  "signed_zero neg = (if neg then NegZero else Fin 0)"

text \<open>
  Round to nearest, ties to even, on a 53-bit significand with the least exponent
  \<open>-1074\<close> (subnormals); a magnitude that rounds to \<open>2\<^sup>1\<^sup>0\<^sup>2\<^sup>4\<close> or more is an infinity.
  \<open>neg\<close> is the sign of the literal, \<open>a \<ge> 0\<close> its magnitude.
\<close>

definition round_double :: "bool \<Rightarrow> rat \<Rightarrow> jsnum" where
  "round_double neg a =
     (if a = 0 then signed_zero neg
      else
        let e = max (floor_log2 a - 52) (- 1074);
            m = round_half_even (a / pow2 e);
            v = of_int m * pow2 e
        in if m = 0 then signed_zero neg
           else if pow2 1024 \<le> v then (if neg then NegInf else PosInf)
           else Fin (if neg then - v else v))"

subsection \<open>\<^verbatim>\<open>Number(string)\<close>: the StringNumericLiteral grammar\<close>

definition digit_val :: "nat \<Rightarrow> code_unit \<Rightarrow> nat option" where
  "digit_val radix c =
     (let v = (if 0x30 \<le> c \<and> c \<le> 0x39 then Some (unat c - 0x30)
               else if 0x61 \<le> c \<and> c \<le> 0x66 then Some (unat c - 0x61 + 10)
               else if 0x41 \<le> c \<and> c \<le> 0x46 then Some (unat c - 0x41 + 10)
               else None)
      in case v of
           Some d \<Rightarrow> if d < radix then Some d else None
         | None \<Rightarrow> None)"

fun digits_acc :: "nat \<Rightarrow> jsstring \<Rightarrow> nat \<Rightarrow> nat option" where
  "digits_acc radix [] acc = Some acc"
| "digits_acc radix (c # cs) acc =
     (case digit_val radix c of
        None \<Rightarrow> None
      | Some d \<Rightarrow> digits_acc radix cs (acc * radix + d))"

text \<open>One or more digits of the radix.\<close>

definition digits_val :: "nat \<Rightarrow> jsstring \<Rightarrow> nat option" where
  "digits_val radix ds = (if ds = [] then None else digits_acc radix ds 0)"

text \<open>\<^verbatim>\<open>0x\<close>, \<^verbatim>\<open>0o\<close> and \<^verbatim>\<open>0b\<close> literals (either case of the letter); they take no sign.\<close>

definition parse_non_decimal :: "jsstring \<Rightarrow> nat option" where
  "parse_non_decimal u =
     (case u of
        z # x # ds \<Rightarrow>
          if z \<noteq> 0x30 then None
          else if x = 0x78 \<or> x = 0x58 then digits_val 16 ds
          else if x = 0x6F \<or> x = 0x4F then digits_val 8 ds
          else if x = 0x62 \<or> x = 0x42 then digits_val 2 ds
          else None
      | _ \<Rightarrow> None)"

text \<open>The exponent after \<^verbatim>\<open>e\<close>: digits with an optional sign.\<close>

definition parse_signed_int :: "jsstring \<Rightarrow> int option" where
  "parse_signed_int u =
     (case u of
        [] \<Rightarrow> None
      | c # cs \<Rightarrow>
          if c = 0x2B then map_option int (digits_val 10 cs)
          else if c = 0x2D then map_option (\<lambda>n. - int n) (digits_val 10 cs)
          else map_option int (digits_val 10 u))"

text \<open>\<^verbatim>\<open>digits\<close>, \<^verbatim>\<open>digits.\<close>, \<^verbatim>\<open>digits.digits\<close> or \<^verbatim>\<open>.digits\<close>.\<close>

definition parse_mantissa :: "jsstring \<Rightarrow> rat option" where
  "parse_mantissa m =
     (let ip = takeWhile (\<lambda>c. c \<noteq> 0x2E) m;
          rest = dropWhile (\<lambda>c. c \<noteq> 0x2E) m
      in if rest = [] then map_option of_nat (digits_val 10 ip)
         else
           let fp = tl rest
           in if ip = [] \<and> fp = [] then None
              else
                (case (digits_acc 10 ip 0, digits_acc 10 fp 0) of
                   (Some i, Some f) \<Rightarrow> Some (of_nat i + of_nat f / 10 ^ length fp)
                 | _ \<Rightarrow> None))"

definition parse_unsigned_decimal :: "jsstring \<Rightarrow> rat option" where
  "parse_unsigned_decimal u =
     (let is_e = (\<lambda>c. c = 0x65 \<or> c = 0x45);
          m = takeWhile (\<lambda>c. \<not> is_e c) u;
          rest = dropWhile (\<lambda>c. \<not> is_e c) u
      in case parse_mantissa m of
           None \<Rightarrow> None
         | Some mv \<Rightarrow>
             if rest = [] then Some mv
             else
               (case parse_signed_int (tl rest) of
                  None \<Rightarrow> None
                | Some e \<Rightarrow> Some (mv * pow10 e)))"

definition parse_decimal :: "jsstring \<Rightarrow> jsnum" where
  "parse_decimal t =
     (let neg = (t \<noteq> [] \<and> hd t = 0x2D);
          u = (if t \<noteq> [] \<and> (hd t = 0x2B \<or> hd t = 0x2D) then tl t else t)
      in if u = js ''Infinity'' then (if neg then NegInf else PosInf)
         else
           (case parse_unsigned_decimal u of
              None \<Rightarrow> NaN
            | Some mv \<Rightarrow> round_double neg mv))"

text \<open>
  \<^verbatim>\<open>Number(s)\<close> for a string: white space is stripped; the empty string is \<open>+0\<close>; a
  string that is no numeric literal is NaN.
\<close>

definition StringToNumber :: "jsstring \<Rightarrow> jsnum" where
  "StringToNumber s =
     (let t = trim s
      in if t = [] then Fin 0
         else
           (case parse_non_decimal t of
              Some n \<Rightarrow> round_double False (of_nat n)
            | None \<Rightarrow> parse_decimal t))"

subsection \<open>\<^verbatim>\<open>Number(x)\<close>, \<^verbatim>\<open>String(x)\<close>, \<^verbatim>\<open>Number.isInteger\<close>\<close>

definition ToNumber :: "jsval \<Rightarrow> error + jsnum" where
  "ToNumber v =
     (case v of
        JUndefined \<Rightarrow> Inr NaN
      | JNull \<Rightarrow> Inr (Fin 0)
      | JBool b \<Rightarrow> Inr (Fin (if b then 1 else 0))
      | JNum n \<Rightarrow> Inr n
      | JStr s \<Rightarrow> Inr (StringToNumber s)
      | JSymbol d \<Rightarrow> Inl (TypeError (js ''Cannot convert a Symbol value to a number'')))"

text \<open>
  \<^verbatim>\<open>String(x)\<close>. The decimal representation of a Number (\<^verbatim>\<open>Number::toString\<close>) is a
  parameter: no property below depends on which digits it produces.
\<close>

definition ToString :: "(jsnum \<Rightarrow> jsstring) \<Rightarrow> jsval \<Rightarrow> jsstring" where
  "ToString numberToString v =
     (case v of
        JUndefined \<Rightarrow> js ''undefined''
      | JNull \<Rightarrow> js ''null''
      | JBool b \<Rightarrow> (if b then js ''true'' else js ''false'')
      | JNum n \<Rightarrow> numberToString n
      | JStr s \<Rightarrow> s
      | JSymbol d \<Rightarrow> js ''Symbol('' @ d @ js '')'')"

definition isInteger :: "jsnum \<Rightarrow> bool" where
  "isInteger n =
     (case n of
        Fin r \<Rightarrow> of_int \<lfloor>r\<rfloor> = r
      | NegZero \<Rightarrow> True
      | _ \<Rightarrow> False)"

section \<open>Value coercion (\<^verbatim>\<open>coerce\<close>, loadUtils.ts)\<close>

text \<open>
  \<^verbatim>\<open>coerce(raw, type)\<close>: \<open>Inl\<close> is a thrown error, \<open>Inr JUndefined\<close> the result
  \<^verbatim>\<open>undefined\<close>. The declared type is a value too, since \<^verbatim>\<open>fieldTypes[name]\<close> is
  \<^verbatim>\<open>undefined\<close> for a name without an entry.
\<close>

definition coerce :: "(jsnum \<Rightarrow> jsstring) \<Rightarrow> jsval \<Rightarrow> jsval \<Rightarrow> error + jsval" where
  "coerce numberToString raw ty =
     (if raw = JUndefined \<or> raw = JNull then Inr JUndefined
      else if ty = JStr (js ''integer'') \<or> ty = JStr (js ''long'') then
        (case ToNumber raw of
           Inl e \<Rightarrow> Inl e
         | Inr n \<Rightarrow> Inr (if isInteger n then JNum n else JUndefined))
      else if ty = JStr (js ''boolean'') then
        (case raw of
           JBool b \<Rightarrow> Inr raw
         | _ \<Rightarrow>
             let s = toLowerCase (ToString numberToString raw)
             in Inr (JBool (s = js ''true'' \<or> s = js ''1'' \<or> s = js ''yes'')))
      else
        let str = trim (ToString numberToString raw)
        in if str = [] then Inr JUndefined else Inr (JStr str))"

text \<open>
  The raw values of the loader: a string, a number, a boolean, \<^verbatim>\<open>undefined\<close> or \<^verbatim>\<open>null\<close>;
  the absent ones among them; and the two integer types of the mapping.
\<close>

definition is_cell :: "jsval \<Rightarrow> bool" where
  "is_cell v = (case v of JSymbol d \<Rightarrow> False | _ \<Rightarrow> True)"

definition absent :: "jsval \<Rightarrow> bool" where
  "absent v \<longleftrightarrow> v = JUndefined \<or> v = JNull"

definition integer_type :: "jsval \<Rightarrow> bool" where
  "integer_type ty \<longleftrightarrow> ty = JStr (js ''integer'') \<or> ty = JStr (js ''long'')"

section \<open>Row-to-document mapper (\<^verbatim>\<open>rowToDoc\<close>, loadUtils.ts)\<close>

text \<open>
  A JSON document, and the own enumerable properties of a plain object: the keys with
  their values, in the order \<^verbatim>\<open>Object.keys\<close> lists them.
\<close>

type_synonym doc = "(jsstring \<times> jsval) list"

text \<open>
  The value a stored document holds under a field (\<^verbatim>\<open>undefined\<close> stands for a field the
  document does not have). This is the lookup of the search backend, not \<^verbatim>\<open>doc[key]\<close>.
\<close>

definition stored_field :: "doc \<Rightarrow> jsstring \<Rightarrow> jsval" where
  "stored_field d k = (case map_of d k of None \<Rightarrow> JUndefined | Some v \<Rightarrow> v)"

subsection \<open>Plain objects\<close>

text \<open>
  The properties every plain object inherits: the own property names of
  \<^verbatim>\<open>Object.prototype\<close>. Each holds a function, but \<^verbatim>\<open>__proto__\<close>, an accessor whose getter
  returns the prototype and whose setter ignores every primitive value.
\<close>

definition object_prototype_keys :: "jsstring list" where
  "object_prototype_keys =
     [js ''constructor'', js ''__defineGetter__'', js ''__defineSetter__'',
      js ''hasOwnProperty'', js ''__lookupGetter__'', js ''__lookupSetter__'',
      js ''isPrototypeOf'', js ''propertyIsEnumerable'', js ''toString'', js ''valueOf'',
      js ''__proto__'', js ''toLocaleString'']"

text \<open>
  An array index: the canonical decimal string of an integer from 0 to \<open>2\<^sup>3\<^sup>2 - 2\<close>. Such
  keys are listed before all others, in ascending order.
\<close>

definition array_index :: "jsstring \<Rightarrow> nat option" where
  "array_index k =
     (case digits_val 10 k of
        None \<Rightarrow> None
      | Some n \<Rightarrow> if (k = js ''0'' \<or> hd k \<noteq> 0x30) \<and> n < 4294967295 then Some n else None)"

text \<open>A new own property takes its place in the key order.\<close>

fun insert_prop :: "doc \<Rightarrow> jsstring \<Rightarrow> jsval \<Rightarrow> doc" where
  "insert_prop [] k v = [(k, v)]"
| "insert_prop (p # ps) k v =
     (case array_index k of
        None \<Rightarrow> p # insert_prop ps k v
      | Some i \<Rightarrow>
          (case array_index (fst p) of
             None \<Rightarrow> (k, v) # p # ps
           | Some j \<Rightarrow> if j < i then p # insert_prop ps k v else (k, v) # p # ps))"

text \<open>
  Defining an own property (an object literal, a spread): an existing key keeps its
  place and takes the value, a new key is inserted.
\<close>

definition define_prop :: "doc \<Rightarrow> jsstring \<Rightarrow> jsval \<Rightarrow> doc" where
  "define_prop d k v =
     (if map_of d k = None then insert_prop d k v
      else map (\<lambda>p. if fst p = k then (k, v) else p) d)"

text \<open>
  A plain object: its own properties, and whether its prototype is still
  \<^verbatim>\<open>Object.prototype\<close> (it is \<^verbatim>\<open>null\<close> otherwise; no other prototype can arise from the
  values modelled).
\<close>

record jsobject =
  props :: doc
  proto :: bool

text \<open>The object literal \<^verbatim>\<open>{}\<close>.\<close>

definition empty_object :: jsobject where
  "empty_object = \<lparr>props = [], proto = True\<rparr>"

text \<open>
  \<^verbatim>\<open>obj[key] === undefined\<close>. The read goes through the prototype: a key the object
  inherits is not \<^verbatim>\<open>undefined\<close>.
\<close>

definition prop_undefined :: "jsobject \<Rightarrow> jsstring \<Rightarrow> bool" where
  "prop_undefined obj k =
     (case map_of (props obj) k of
        Some v \<Rightarrow> v = JUndefined
      | None \<Rightarrow> \<not> (proto obj \<and> k \<in> set object_prototype_keys))"

text \<open>
  \<^verbatim>\<open>obj[key] = value\<close>. The assignment \<^verbatim>\<open>obj["__proto__"] = value\<close> to an object that
  inherits the accessor runs the setter: \<^verbatim>\<open>null\<close> removes the prototype, any other value
  modelled is a primitive and changes nothing. Every other assignment writes an own
  property.
\<close>

definition set_prop :: "jsobject \<Rightarrow> jsstring \<Rightarrow> jsval \<Rightarrow> jsobject" where
  "set_prop obj k v =
     (if map_of (props obj) k = None \<and> proto obj \<and> k = js ''__proto__'' then
        (if v = JNull then obj\<lparr>proto := False\<rparr> else obj)
      else obj\<lparr>props := define_prop (props obj) k v\<rparr>)"

subsection \<open>The mapper\<close>

text \<open>\<^verbatim>\<open>row[i]\<close>: \<^verbatim>\<open>undefined\<close> beyond the end of the array.\<close>

definition cell_at :: "jsval list \<Rightarrow> nat \<Rightarrow> jsval" where
  "cell_at row i = (if i < length row then row ! i else JUndefined)"

text \<open>
  \<^verbatim>\<open>fieldTypes[name]\<close>. A lookup that yields no string (no entry for the name) is
  \<^verbatim>\<open>undefined\<close> here; where the code would read an inherited member instead, that value
  is no string either, and \<^verbatim>\<open>coerce\<close> takes the same branch for both.
\<close>

definition type_of_field :: "(jsstring \<rightharpoonup> jsstring) \<Rightarrow> jsstring \<Rightarrow> jsval" where
  "type_of_field fieldTypes name =
     (case fieldTypes name of None \<Rightarrow> JUndefined | Some t \<Rightarrow> JStr t)"

text \<open>
  The first \<^verbatim>\<open>forEach\<close> of \<^verbatim>\<open>rowToDoc\<close>, from field index \<open>i\<close> on: a throw of \<^verbatim>\<open>coerce\<close>
  leaves the loop.
\<close>

fun fields_loop ::
  "(jsnum \<Rightarrow> jsstring) \<Rightarrow> jsval list \<Rightarrow> (jsstring \<rightharpoonup> jsstring) \<Rightarrow> jsstring list \<Rightarrow> nat
   \<Rightarrow> jsobject \<Rightarrow> error + jsobject" where
  "fields_loop numberToString row fieldTypes [] i doc = Inr doc"
| "fields_loop numberToString row fieldTypes (name # names) i doc =
     (case coerce numberToString (cell_at row i) (type_of_field fieldTypes name) of
        Inl e \<Rightarrow> Inl e
      | Inr v \<Rightarrow>
          fields_loop numberToString row fieldTypes names (Suc i)
            (if v \<noteq> JUndefined then set_prop doc name v else doc))"

text \<open>The second \<^verbatim>\<open>forEach\<close>, over \<^verbatim>\<open>Object.entries(defaults)\<close>.\<close>

fun defaults_loop :: "(jsstring \<times> jsval) list \<Rightarrow> jsobject \<Rightarrow> jsobject" where
  "defaults_loop [] doc = doc"
| "defaults_loop ((key, v) # rest) doc =
     defaults_loop rest (if prop_undefined doc key then set_prop doc key v else doc)"

text \<open>
  \<open>Inr None\<close> is the result \<^verbatim>\<open>null\<close>: the row is discarded. \<^verbatim>\<open>Object.keys(doc).length\<close> is
  the number of own properties.
\<close>

definition rowToDoc ::
  "(jsnum \<Rightarrow> jsstring) \<Rightarrow> jsval list \<Rightarrow> jsstring list \<Rightarrow> (jsstring \<rightharpoonup> jsstring)
   \<Rightarrow> (jsstring \<times> jsval) list \<Rightarrow> error + jsobject option" where
  "rowToDoc numberToString row fieldNames fieldTypes defaults =
     (case fields_loop numberToString row fieldTypes fieldNames 0 empty_object of
        Inl e \<Rightarrow> Inl e
      | Inr doc0 \<Rightarrow>
          let doc = defaults_loop defaults doc0
          in Inr (if length (props doc) > 0 then Some doc else None))"

section \<open>Elasticsearch requests and the world\<close>

text \<open>The query DSL as far as \<^verbatim>\<open>buildEsQuery\<close> uses it.\<close>

datatype match_operator = OpOr | OpAnd

datatype es_query =
    Match jsstring jsstring "match_operator option"
  | MatchPhrase jsstring jsstring
  | Term jsstring jsval
  | BoolQuery (must: "es_query list") (filter_clauses: "es_query list")

text \<open>
  An element of the \<^verbatim>\<open>operations\<close> array of a bulk request; a document is carried as
  its own properties, which is what the request serialises.
\<close>

datatype bulk_op = IndexAction jsstring | Source doc

record bulk_request =
  operations :: "bulk_op list"
  refresh :: bool

record search_request =
  s_index :: jsstring
  s_size :: nat
  s_query :: es_query
  s_source :: "jsstring list"

record update_request =
  u_index :: jsstring
  u_id :: jsstring
  u_doc :: doc
  u_refresh :: bool

text \<open>A hit of a search response: \<^verbatim>\<open>_id\<close> and the optional \<^verbatim>\<open>_source\<close>.\<close>

record raw_hit =
  hit_id :: jsstring
  hit_source :: "doc option"

datatype es_call =
    BulkCall bulk_request
  | SearchCall search_request
  | UpdateCall update_request

text \<open>The first sheet of a workbook, as \<^verbatim>\<open>sheet_to_json\<close> with \<^verbatim>\<open>header: 1\<close> returns it.\<close>

datatype excel_file =
    NoFile
  | ReadFails error
  | Workbook "jsval list list option"

text \<open>
  What the code does not own: the search backend behind \<^verbatim>\<open>client\<close> (any behaviour over
  a state \<open>'s\<close>; each call returns a thrown error or a result, and the next state), the
  file system, and \<^verbatim>\<open>Number::toString\<close>.
\<close>

record 's platform =
  es_bulk :: "bulk_request \<Rightarrow> 's \<Rightarrow> error option \<times> 's"
  es_search :: "search_request \<Rightarrow> 's \<Rightarrow> (error + raw_hit list option) \<times> 's"
  es_update :: "update_request \<Rightarrow> 's \<Rightarrow> error option \<times> 's"
  excelFiles :: "jsstring \<Rightarrow> excel_file"
  numberToString :: "jsnum \<Rightarrow> jsstring"

text \<open>The backend's state and the calls made to it so far, oldest first.\<close>

record 's world =
  backend :: 's
  calls :: "es_call list"

section \<open>Bulk loader (loadUtils.ts)\<close>

record LoaderConfig =
  fieldNames :: "jsstring list"
  fieldTypes :: "jsstring \<rightharpoonup> jsstring"
  defaults :: "(jsstring \<times> jsval) list"

record RunConfig =
  elasticsearchUrl :: jsstring
  indexName :: jsstring
  excelPath :: jsstring
  mappingPath :: jsstring
  batchSize :: int

definition loadExcelRows :: "'s platform \<Rightarrow> jsstring \<Rightarrow> error + jsval list list" where
  "loadExcelRows pf path =
     (case excelFiles pf path of
        NoFile \<Rightarrow> Inl (Error (js ''Excel file not found: '' @ path))
      | ReadFails e \<Rightarrow> Inl e
      | Workbook None \<Rightarrow> Inl (Error (js ''Workbook has no sheets''))
      | Workbook (Some rows) \<Rightarrow>
          if length rows < 2 then Inl (Error (js ''No data rows in sheet''))
          else Inr (tl rows))"

definition flushBatch ::
  "'s platform \<Rightarrow> jsobject list \<Rightarrow> jsstring \<Rightarrow> 's world \<Rightarrow> error option \<times> 's world" where
  "flushBatch pf batch index w =
     (if length batch = 0 then (None, w)
      else
        let ops = concat (map (\<lambda>d. [IndexAction index, Source (props d)]) batch);
            req = \<lparr>operations = ops, refresh = False\<rparr>;
            (r, s) = es_bulk pf req (backend w)
        in (r, \<lparr>backend = s, calls = calls w @ [BulkCall req]\<rparr>))"

text \<open>
  The \<^verbatim>\<open>for\<close> loop of \<^verbatim>\<open>loadAndIndex\<close> over the remaining rows, with the loop state
  \<^verbatim>\<open>batch\<close> and \<^verbatim>\<open>indexed\<close>. A throw (of the mapper or of a flush) ends it.
\<close>

fun rows_loop ::
  "'s platform \<Rightarrow> LoaderConfig \<Rightarrow> RunConfig \<Rightarrow> jsval list list \<Rightarrow> jsobject list \<Rightarrow> nat
   \<Rightarrow> 's world \<Rightarrow> (error + jsobject list \<times> nat) \<times> 's world" where
  "rows_loop pf cfg rc [] batch indexed w = (Inr (batch, indexed), w)"
| "rows_loop pf cfg rc (row # rows) batch indexed w =
     (case rowToDoc (numberToString pf) row (fieldNames cfg) (fieldTypes cfg) (defaults cfg) of
        Inl e \<Rightarrow> (Inl e, w)
      | Inr None \<Rightarrow> rows_loop pf cfg rc rows batch indexed w
      | Inr (Some doc) \<Rightarrow>
          let batch' = batch @ [doc]
          in if batchSize rc \<le> int (length batch') then
               (case flushBatch pf batch' (indexName rc) w of
                  (Some e, w') \<Rightarrow> (Inl e, w')
                | (None, w') \<Rightarrow> rows_loop pf cfg rc rows [] (indexed + length batch') w')
             else rows_loop pf cfg rc rows batch' indexed w)"

definition loadAndIndex ::
  "'s platform \<Rightarrow> LoaderConfig \<Rightarrow> RunConfig \<Rightarrow> 's world \<Rightarrow> (error + nat) \<times> 's world" where
  "loadAndIndex pf cfg rc w =
     (case loadExcelRows pf (excelPath rc) of
        Inl e \<Rightarrow> (Inl e, w)
      | Inr rows \<Rightarrow>
          (case rows_loop pf cfg rc rows [] 0 w of
             (Inl e, w') \<Rightarrow> (Inl e, w')
           | (Inr (batch, indexed), w') \<Rightarrow>
               (case flushBatch pf batch (indexName rc) w' of
                  (Some e, w'') \<Rightarrow> (Inl e, w'')
                | (None, w'') \<Rightarrow> (Inr (indexed + length batch), w''))))"

text \<open>
  The bulk request that carries a batch: for each document an \<^verbatim>\<open>index\<close> action into the
  index, followed by the document; no refresh.
\<close>

definition bulk_request_of :: "jsstring \<Rightarrow> jsobject list \<Rightarrow> bulk_request" where
  "bulk_request_of index batch =
     \<lparr>operations = concat (map (\<lambda>d. [IndexAction index, Source (props d)]) batch),
      refresh = False\<rparr>"

text \<open>The documents a bulk request carries, in order.\<close>

fun docs_of_ops :: "bulk_op list \<Rightarrow> doc list" where
  "docs_of_ops [] = []"
| "docs_of_ops (IndexAction i # ops) = docs_of_ops ops"
| "docs_of_ops (Source d # ops) = d # docs_of_ops ops"

text \<open>The documents the mapper makes of a list of rows (discarded rows left out).\<close>

definition row_docs :: "'s platform \<Rightarrow> LoaderConfig \<Rightarrow> jsval list list \<Rightarrow> jsobject list" where
  "row_docs pf cfg rows =
     List.map_filter
       (\<lambda>row. case rowToDoc (numberToString pf) row (fieldNames cfg) (fieldTypes cfg) (defaults cfg) of
                Inr (Some d) \<Rightarrow> Some d
              | _ \<Rightarrow> None)
       rows"

section \<open>Query builder (\<^verbatim>\<open>buildEsQuery\<close>, load.ts)\<close>

text \<open>
  \<^verbatim>\<open>Mode\<close> is a union of string literals, so at run time a mode is a string; the last
  branch of the conditional takes every mode that is neither \<^verbatim>\<open>"free"\<close> nor \<^verbatim>\<open>"phrase"\<close>.
\<close>

definition buildEsQuery :: "jsstring \<Rightarrow> jsstring \<Rightarrow> es_query" where
  "buildEsQuery q mode =
     (let mustQuery =
            (if mode = js ''free'' then Match (js ''namePrimary'') q None
             else if mode = js ''phrase'' then MatchPhrase (js ''allText'') q
             else Match (js ''allText'') q (Some OpOr))
      in BoolQuery [mustQuery] [Term (js ''isDeleted'') (JBool False)])"

text \<open>
  When a document satisfies a query. A bool query is the conjunction of its \<^verbatim>\<open>must\<close>
  and \<^verbatim>\<open>filter\<close> clauses and a term query compares the stored value, as Elasticsearch
  defines them; what a full-text clause matches depends on the index's analyzers and is
  the parameter \<open>text_match\<close>.
\<close>

fun satisfies :: "(es_query \<Rightarrow> doc \<Rightarrow> bool) \<Rightarrow> es_query \<Rightarrow> doc \<Rightarrow> bool" where
  "satisfies text_match (BoolQuery ms fs) d =
     (list_all (\<lambda>c. satisfies text_match c d) ms \<and> list_all (\<lambda>c. satisfies text_match c d) fs)"
| "satisfies text_match (Term f v) d = (stored_field d f = v)"
| "satisfies text_match (Match f q opr) d = text_match (Match f q opr) d"
| "satisfies text_match (MatchPhrase f q) d = text_match (MatchPhrase f q) d"

section \<open>Search and delete handlers (load.ts)\<close>

datatype json_body =
    HitsObject "doc list"
  | HitsArray "doc list"
  | ErrorBody jsstring "jsstring option"
  | OkBody

datatype response = Response (status: nat) (body: json_body)

text \<open>\<^verbatim>\<open>{ id: h._id, ...(h._source ?? {}) }\<close>\<close>

definition hit_to_json :: "raw_hit \<Rightarrow> doc" where
  "hit_to_json h =
     fold (\<lambda>(k, v) d. define_prop d k v)
       (case hit_source h of None \<Rightarrow> [] | Some src \<Rightarrow> src)
       [(js ''id'', JStr (hit_id h))]"

text \<open>
  \<^verbatim>\<open>GET /api/search\<close>. \<open>q_param\<close> and \<open>mode_param\<close> are \<^verbatim>\<open>req.query.q\<close> and
  \<^verbatim>\<open>req.query.mode\<close> (\<open>None\<close> when the parameter is missing; a repeated parameter, which
  the framework parses to an array, is not modelled); \<open>index\<close> is \<^verbatim>\<open>INDEX_NAME\<close>. The
  body \<open>HitsObject hs\<close> is \<^verbatim>\<open>{hits: hs}\<close>, \<open>HitsArray hs\<close> the bare array, \<open>ErrorBody\<close> is
  \<^verbatim>\<open>{error, details}\<close> and \<open>OkBody\<close> is \<^verbatim>\<open>{ok: true}\<close>. A throw of the backend call is
  caught and answered with status 500.
\<close>

definition search_handler ::
  "'s platform \<Rightarrow> jsstring \<Rightarrow> jsstring option \<Rightarrow> jsstring option \<Rightarrow> 's world
   \<Rightarrow> response \<times> 's world" where
  "search_handler pf index q_param mode_param w =
     (let q = trim (case q_param of None \<Rightarrow> [] | Some s \<Rightarrow> s);
          modeRaw = trim (case mode_param of None \<Rightarrow> js ''free'' | Some s \<Rightarrow> s)
      in if q = [] then (Response 200 (HitsObject []), w)
         else
           let mode = (if modeRaw \<in> set [js ''free'', js ''any'', js ''phrase'']
                       then modeRaw else js ''free'');
               req = \<lparr>s_index = index, s_size = 200, s_query = buildEsQuery q mode,
                      s_source = [js ''namePrimary'', js ''title'', js ''nameSecondary'',
                                  js ''group'', js ''kind'', js ''neighborhood'']\<rparr>;
               (r, s) = es_search pf req (backend w);
               w' = \<lparr>backend = s, calls = calls w @ [SearchCall req]\<rparr>
           in case r of
                Inl err \<Rightarrow>
                  (Response 500 (ErrorBody (js ''Search failed'') (Some (error_message err))), w')
              | Inr hs \<Rightarrow>
                  (Response 200
                     (HitsArray (map hit_to_json (case hs of None \<Rightarrow> [] | Some l \<Rightarrow> l))), w'))"

text \<open>\<^verbatim>\<open>DELETE /api/streets/:id\<close>. \<open>id_param\<close> is \<^verbatim>\<open>req.params.id\<close>.\<close>

definition delete_handler ::
  "'s platform \<Rightarrow> jsstring \<Rightarrow> jsstring option \<Rightarrow> 's world \<Rightarrow> response \<times> 's world" where
  "delete_handler pf index id_param w =
     (let ident = trim (case id_param of None \<Rightarrow> [] | Some s \<Rightarrow> s)
      in if ident = [] then (Response 400 (ErrorBody (js ''Missing id'') None), w)
         else
           let req = \<lparr>u_index = index, u_id = ident,
                      u_doc = [(js ''isDeleted'', JBool True)], u_refresh = True\<rparr>;
               (r, s) = es_update pf req (backend w);
               w' = \<lparr>backend = s, calls = calls w @ [UpdateCall req]\<rparr>
           in case r of
                Some err \<Rightarrow>
                  (Response 500 (ErrorBody (js ''Delete failed'') (Some (error_message err))), w')
              | None \<Rightarrow> (Response 200 OkBody, w'))"

section \<open>A sample deployment\<close>

text \<open>
  Concrete inputs on which the properties below are instantiated: a backend that accepts
  every call and finds nothing, two workbooks, and the schema of two fields with the
  default \<^verbatim>\<open>isDeleted: false\<close>. The sample rows hold strings only, so the value of
  \<open>numberToString\<close> is never asked for.
\<close>

definition sample_sheet :: "jsval list list" where
  "sample_sheet =
     [[JStr (js ''name''), JStr (js ''code'')],
      [JStr (js ''Herzl''), JStr (js ''12'')],
      [JStr (js ''Allenby'')],
      [JStr (js ''Ben Yehuda''), JStr (js ''12'')]]"

definition sample_platform :: "unit platform" where
  "sample_platform =
     \<lparr>es_bulk = (\<lambda>req s. (None, s)),
      es_search = (\<lambda>req s. (Inr (Some []), s)),
      es_update = (\<lambda>req s. (None, s)),
      excelFiles = (\<lambda>path. if path = js ''streets.xlsx'' then Workbook (Some sample_sheet)
                            else if path = js ''empty.xlsx'' then Workbook (Some [hd sample_sheet])
                            else NoFile),
      numberToString = (\<lambda>n. js ''NaN'')\<rparr>"

definition sample_config :: LoaderConfig where
  "sample_config =
     \<lparr>fieldNames = [js ''namePrimary'', js ''code''],
      fieldTypes = [js ''namePrimary'' \<mapsto> js ''text'', js ''code'' \<mapsto> js ''integer''],
      defaults = [(js ''isDeleted'', JBool False)]\<rparr>"

definition sample_run :: "jsstring \<Rightarrow> RunConfig" where
  "sample_run path =
     \<lparr>elasticsearchUrl = js ''http://localhost:9200'', indexName = js ''streets'',
      excelPath = path, mappingPath = js ''mapping.json'', batchSize = 2\<rparr>"

definition sample_world :: "unit world" where
  "sample_world = \<lparr>backend = (), calls = []\<rparr>"

text \<open>
  The same deployment over a backend that keeps the documents it is sent: its state is
  the content of the index, empty at first.
\<close>

definition storing_platform :: "doc list platform" where
  "storing_platform =
     \<lparr>es_bulk = (\<lambda>req s. (None, s @ docs_of_ops (operations req))),
      es_search = (\<lambda>req s. (Inr (Some []), s)),
      es_update = (\<lambda>req s. (None, s)),
      excelFiles = excelFiles sample_platform,
      numberToString = numberToString sample_platform\<rparr>"

definition empty_index :: "doc list world" where
  "empty_index = \<lparr>backend = [], calls = []\<rparr>"

chapter \<open>Properties\<close>

section \<open>Facts about the string and number model\<close>

lemma trim_blank: "\<forall>c\<in>set s. is_ws c \<Longrightarrow> trim s = []"
proof -
  assume "\<forall>c\<in>set s. is_ws c"
  then have d: "dropWhile is_ws s = []" by simp
  show ?thesis unfolding trim_def d by simp
qed

lemma trim_literals:
  "trim (js ''free'') = js ''free''" "trim (js '' any'') = js ''any''"
  by (simp_all add: trim_def js_def is_ws_def)

lemma type_literals_distinct:
  "js ''integer'' \<noteq> js ''long''" "js ''integer'' \<noteq> js ''boolean''"
  "js ''long'' \<noteq> js ''boolean''"
  by (simp_all add: js_def)

lemma mode_literals_distinct:
  "js ''free'' \<noteq> js ''any''" "js ''free'' \<noteq> js ''phrase''" "js ''any'' \<noteq> js ''phrase''"
  "js ''any'' \<noteq> js ''free''" "js ''phrase'' \<noteq> js ''free''" "js ''phrase'' \<noteq> js ''any''"
  by (simp_all add: js_def)

subsection \<open>The rounding to binary64\<close>

lemma bitlen_pos: "0 < n \<Longrightarrow> bitlen n = Suc (bitlen (n div 2))"
  by (simp add: bitlen.simps [of n])

lemma bitlen_bounds: "0 < n \<Longrightarrow> 2 ^ (bitlen n - 1) \<le> n \<and> n < 2 ^ bitlen n"
proof (induction n rule: bitlen.induct)
  case (1 n)
  from 1 have e: "bitlen n = Suc (bitlen (n div 2))" by (simp add: bitlen_pos)
  show ?case
  proof (cases "n div 2 = 0")
    case True
    then have z: "bitlen (n div 2) = 0" by (simp add: bitlen.simps [of 0])
    from True 1 have "n = 1" by (simp add: div_eq_0_iff)
    then show ?thesis unfolding e z by simp
  next
    case False
    then have "0 < n div 2" by simp
    with 1 have ih: "2 ^ (bitlen (n div 2) - 1) \<le> n div 2 \<and> n div 2 < 2 ^ bitlen (n div 2)"
      by simp
    from False have b: "0 < bitlen (n div 2)" by (simp add: bitlen_pos)
    from b have "(2::nat) ^ (bitlen n - 1) = 2 * 2 ^ (bitlen (n div 2) - 1)"
      unfolding e by (cases "bitlen (n div 2)") simp_all
    with ih have "2 ^ (bitlen n - 1) \<le> n" by linarith
    moreover from ih have "n < 2 * 2 ^ bitlen (n div 2)" by linarith
    then have "n < 2 ^ bitlen n" unfolding e by simp
    ultimately show ?thesis by blast
  qed
qed

lemma bitlen_bounds_rat:
  assumes "0 < (p::int)"
  shows "(2::rat) ^ (bitlen (nat p) - 1) \<le> of_int p \<and> (of_int p :: rat) < 2 ^ bitlen (nat p)"
proof -
  from bitlen_bounds [of "nat p"] assms
  have "2 ^ (bitlen (nat p) - 1) \<le> nat p" "nat p < 2 ^ bitlen (nat p)" by simp_all
  then have "(of_nat (2 ^ (bitlen (nat p) - 1)) :: rat) \<le> of_nat (nat p)"
    "(of_nat (nat p) :: rat) < of_nat (2 ^ bitlen (nat p))"
    by (simp_all only: of_nat_le_iff of_nat_less_iff)
  moreover have "(of_nat (nat p) :: rat) = of_int p" using assms by simp
  ultimately show ?thesis by simp
qed

lemma pow2_powi: "pow2 e = 2 powi e"
  by (simp add: pow2_def power_int_def field_simps)

lemma floor_log2_correct:
  assumes "0 < a"
  shows "pow2 (floor_log2 a) \<le> a \<and> a < pow2 (floor_log2 a + 1)"
proof -
  obtain p q where pq: "quotient_of a = (p, q)" by (cases "quotient_of a")
  then have q: "0 < q" by (rule quotient_of_denom_pos)
  from pq have a: "a = of_int p / of_int q" by (rule quotient_of_div)
  with assms q have p: "0 < p" by (simp add: zero_less_divide_iff)
  define bp where "bp = bitlen (nat p)"
  define bq where "bq = bitlen (nat q)"
  define k where "k = int bp - int bq"
  from bitlen_bounds_rat [OF p]
  have P: "(2::rat) ^ (bp - 1) \<le> of_int p" "(of_int p :: rat) < 2 ^ bp"
    by (simp_all add: bp_def)
  from bitlen_bounds_rat [OF q]
  have Q: "(2::rat) ^ (bq - 1) \<le> of_int q" "(of_int q :: rat) < 2 ^ bq"
    by (simp_all add: bq_def)
  have bp0: "0 < bp" using p by (simp add: bp_def bitlen_pos)
  have bq0: "0 < bq" using q by (simp add: bq_def bitlen_pos)
  have qr: "(0::rat) < of_int q" using q by simp
  have "a * of_int q = of_int p" using qr by (simp add: a)
  have "of_int p < (2::rat) ^ bp" by (rule P)
  also have "\<dots> = 2 powi (k + 1) * 2 ^ (bq - 1)"
  proof -
    have "k + 1 + int (bq - 1) = int bp" using bq0 by (simp add: k_def)
    then have "(2::rat) powi (k + 1) * 2 powi (int (bq - 1)) = 2 powi (int bp)"
      by (metis power_int_add zero_neq_numeral)
    then show ?thesis by simp
  qed
  also have "\<dots> \<le> 2 powi (k + 1) * of_int q"
    using Q(1) by (simp add: mult_left_mono)
  finally have "a * of_int q < 2 powi (k + 1) * of_int q"
    using \<open>a * of_int q = of_int p\<close> by simp
  with qr have up: "a < 2 powi (k + 1)" by simp
  have "2 powi (k - 1) * of_int q < (2::rat) powi (k - 1) * 2 ^ bq"
    using Q(2) by (simp add: mult_strict_left_mono)
  also have "\<dots> = 2 ^ (bp - 1)"
  proof -
    have "k - 1 + int bq = int (bp - 1)" using bp0 by (simp add: k_def)
    then have "(2::rat) powi (k - 1) * 2 powi (int bq) = 2 powi (int (bp - 1))"
      by (metis power_int_add zero_neq_numeral)
    then show ?thesis by simp
  qed
  also have "\<dots> \<le> of_int p" by (rule P)
  finally have "2 powi (k - 1) * of_int q < a * of_int q"
    using \<open>a * of_int q = of_int p\<close> by simp
  with qr have lo: "2 powi (k - 1) < a" by simp
  show ?thesis
  proof (cases "pow2 k \<le> a")
    case True
    with pq have "floor_log2 a = k"
      by (simp add: floor_log2_def k_def bp_def bq_def)
    with True up show ?thesis by (simp add: pow2_powi)
  next
    case False
    with pq have "floor_log2 a = k - 1"
      by (simp add: floor_log2_def k_def bp_def bq_def)
    with False lo show ?thesis by (simp add: pow2_powi)
  qed
qed

lemma round_half_even_nearest: "\<bar>x - of_int (round_half_even x)\<bar> \<le> 1 / 2"
proof -
  define f where "f = \<lfloor>x\<rfloor>"
  have b: "of_int f \<le> x" "x < of_int f + 1" unfolding f_def by linarith+
  have "round_half_even x =
      (if x - of_int f < 1 / 2 then f
       else if 1 / 2 < x - of_int f then f + 1
       else if even f then f else f + 1)"
    by (simp add: round_half_even_def Let_def f_def)
  with b show ?thesis by (simp add: abs_if split: if_splits)
qed

lemma pow2_pos: "0 < pow2 e"
  by (simp add: pow2_def)

lemma pow2_add: "pow2 (i + j) = pow2 i * pow2 j"
  by (simp add: pow2_powi power_int_add)

lemma pow2_mono: "i \<le> j \<Longrightarrow> pow2 i \<le> pow2 j"
  by (simp add: pow2_powi power_int_increasing)

text \<open>
  A finite result of the rounding is a binary64 value next to the magnitude: an
  integer significand of at most 53 bits times a power of two not below \<open>2\<^sup>-\<^sup>1\<^sup>0\<^sup>7\<^sup>4\<close>,
  within half a unit of that power of the magnitude, and below \<open>2\<^sup>1\<^sup>0\<^sup>2\<^sup>4\<close>.
\<close>

lemma round_double_finite:
  assumes a: "0 < a" and r: "round_double neg a = Fin v"
  shows "\<exists>m e. - 1074 \<le> e \<and> 0 \<le> m \<and> m \<le> 2 ^ 53 \<and> \<bar>v\<bar> = of_int m * pow2 e \<and>
           \<bar>\<bar>v\<bar> - a\<bar> \<le> pow2 e / 2 \<and> \<bar>v\<bar> < pow2 1024"
proof -
  define e where "e = max (floor_log2 a - 52) (- 1074)"
  define x where "x = a / pow2 e"
  define m where "m = round_half_even x"
  have e: "- 1074 \<le> e" "floor_log2 a - 52 \<le> e" by (simp_all add: e_def)
  have x0: "0 < x" using a pow2_pos [of e] by (simp add: x_def)
  have near: "\<bar>x - of_int m\<bar> \<le> 1 / 2" unfolding m_def by (rule round_half_even_nearest)
  have m0: "0 \<le> m"
  proof (rule ccontr)
    assume "\<not> 0 \<le> m"
    then have "m \<le> - 1" by simp
    then have "(of_int m :: rat) \<le> - 1" by (metis of_int_le_iff of_int_minus of_int_1)
    with near x0 show False by (simp add: abs_if split: if_splits)
  qed
  from floor_log2_correct [OF a] have "a < pow2 (floor_log2 a + 1)" by blast
  also have "pow2 (floor_log2 a + 1) \<le> pow2 (e + 53)" using e(2) by (intro pow2_mono) simp
  also have "\<dots> = pow2 53 * pow2 e" by (simp add: pow2_add mult.commute)
  finally have "x < pow2 53" using pow2_pos [of e] by (simp add: x_def pos_divide_less_eq)
  then have x53: "x < 2 ^ 53" by (simp add: pow2_def)
  have m53: "m \<le> 2 ^ 53"
  proof (rule ccontr)
    assume "\<not> m \<le> 2 ^ 53"
    then have "2 ^ 53 + 1 \<le> m" by simp
    then have "(of_int (2 ^ 53 + 1) :: rat) \<le> of_int m" by (simp only: of_int_le_iff)
    then have "(2 ^ 53 + 1 :: rat) \<le> of_int m" by simp
    with near x53 show False by (simp add: abs_if split: if_splits)
  qed
  have ax: "a = x * pow2 e" using pow2_pos [of e] by (simp add: x_def)
  have "\<bar>of_int m * pow2 e - a\<bar> = \<bar>of_int m - x\<bar> * pow2 e"
    using pow2_pos [of e] by (simp add: ax abs_mult flip: left_diff_distrib)
  also have "\<dots> \<le> 1 / 2 * pow2 e"
    using near pow2_pos [of e] by (intro mult_right_mono) (simp_all add: abs_minus_commute)
  finally have err: "\<bar>of_int m * pow2 e - a\<bar> \<le> pow2 e / 2" by simp
  have nn: "0 \<le> of_int m * pow2 e" using m0 pow2_pos [of e] by simp
  from r a have "(m = 0 \<and> v = 0) \<or>
      (\<not> pow2 1024 \<le> of_int m * pow2 e \<and>
       v = (if neg then - (of_int m * pow2 e) else of_int m * pow2 e))"
    by (auto simp: round_double_def Let_def signed_zero_def e_def x_def m_def
        split: if_splits)
  then have av: "\<bar>v\<bar> = of_int m * pow2 e" and lt: "of_int m * pow2 e < pow2 1024"
    using nn pow2_pos [of 1024] by (auto split: if_splits)
  from e(1) m0 m53 av err lt show ?thesis
    by (intro exI [of _ m] exI [of _ e]) simp
qed

subsection \<open>Numeric conversion\<close>

text \<open>\<^verbatim>\<open>Number.isInteger\<close> holds of the whole numbers, negative zero among them.\<close>

lemma isInteger_iff: "isInteger n \<longleftrightarrow> n = NegZero \<or> (\<exists>k::int. n = Fin (of_int k))"
proof (cases n)
  case (Fin r)
  have "(of_int \<lfloor>r\<rfloor> = r) = (\<exists>k::int. r = of_int k)"
    by (metis floor_of_int)
  with Fin show ?thesis by (simp add: isInteger_def)
qed (simp_all add: isInteger_def)

lemma StringToNumber_blank: "\<forall>c\<in>set s. is_ws c \<Longrightarrow> StringToNumber s = Fin 0"
  by (simp add: StringToNumber_def trim_blank)

lemmas number_eval =
  StringToNumber_def js_def trim_def is_ws_def parse_non_decimal_def parse_decimal_def
  parse_unsigned_decimal_def parse_mantissa_def digits_val_def digit_val_def
  parse_signed_int_def Let_def

lemmas rounding_eval =
  round_double_def signed_zero_def floor_log2_def pow2_def pow10_def round_half_even_def
  bitlen.simps

lemma StringToNumber_12: "StringToNumber (js ''12'') = Fin 12"
  by (simp add: number_eval rounding_eval)

lemma quotient_of_12_5: "quotient_of (25 / 2) = (25, 2)"
  by code_simp

lemma floor_log2_12_5: "floor_log2 (25 / 2) = 3"
  by (simp add: floor_log2_def quotient_of_12_5 pow2_def bitlen.simps)

lemma round_double_12_5: "round_double False (25 / 2) = Fin (25 / 2)"
  by (simp add: round_double_def floor_log2_12_5 pow2_def round_half_even_def)

lemma StringToNumber_12_5: "StringToNumber (js ''12.5'') = Fin (25 / 2)"
proof -
  have "StringToNumber (js ''12.5'') = round_double False (25 / 2)"
    by (simp add: number_eval)
  then show ?thesis by (simp only: round_double_12_5)
qed

lemma StringToNumber_abc: "StringToNumber (js ''abc'') = NaN"
  by (simp add: number_eval)

text \<open>More literals, as \<^verbatim>\<open>Number\<close> reads them.\<close>

lemma StringToNumber_samples:
  "StringToNumber (js ''0x1F'') = Fin 31"
  "StringToNumber (js ''1e3'') = Fin 1000"
  "StringToNumber (js '' 42 '') = Fin 42"
  "StringToNumber (js ''-0'') = NegZero"
  "StringToNumber (js ''-Infinity'') = NegInf"
  "StringToNumber (js ''1.5e'') = NaN"
  "StringToNumber (js ''12abc'') = NaN"
  by (simp_all add: number_eval rounding_eval)

lemma not_isInteger_12_5: "\<not> isInteger (Fin (25 / 2))"
  by code_simp

section \<open>Value coercion\<close>

lemma coerce_absent: "absent raw \<Longrightarrow> coerce nts raw ty = Inr JUndefined"
  by (simp add: coerce_def absent_def)

lemma ToNumber_cell: "is_cell raw \<Longrightarrow> \<exists>n. ToNumber raw = Inr n"
  by (cases raw) (simp_all add: is_cell_def ToNumber_def)

lemma coerce_integer_type:
  "integer_type ty \<Longrightarrow> \<not> absent raw \<Longrightarrow> ToNumber raw = Inr n \<Longrightarrow>
   coerce nts raw ty = Inr (if isInteger n then JNum n else JUndefined)"
  by (simp add: coerce_def absent_def integer_type_def)

lemma coerce_text_type:
  "\<not> integer_type ty \<Longrightarrow> ty \<noteq> JStr (js ''boolean'') \<Longrightarrow> \<not> absent raw \<Longrightarrow>
   coerce nts raw ty =
     Inr (if trim (ToString nts raw) = [] then JUndefined else JStr (trim (ToString nts raw)))"
  by (simp add: coerce_def absent_def integer_type_def Let_def)

text \<open>
  Under the type \<^verbatim>\<open>"boolean"\<close> every present value has a result: a boolean is kept,
  and any other value is \<^verbatim>\<open>true\<close> exactly when its string is \<^verbatim>\<open>true\<close>, \<^verbatim>\<open>1\<close> or \<^verbatim>\<open>yes\<close>
  in any case of the letters.
\<close>

lemma coerce_boolean_type:
  "\<not> absent raw \<Longrightarrow>
   coerce nts raw (JStr (js ''boolean'')) =
     Inr (JBool (case raw of
                   JBool b \<Rightarrow> b
                 | _ \<Rightarrow> toLowerCase (ToString nts raw) \<in> {js ''true'', js ''1'', js ''yes''}))"
  by (cases raw)
    (simp_all add: coerce_def absent_def type_literals_distinct [symmetric] Let_def)

text \<open>The throwing branch of the model is live: a Symbol under an integer type throws.\<close>

lemma coerce_symbol_throws:
  "coerce nts (JSymbol d) (JStr (js ''integer'')) =
     Inl (TypeError (js ''Cannot convert a Symbol value to a number''))"
  by (simp add: coerce_def ToNumber_def)

lemma coerce_cell_returns:
  "is_cell raw \<Longrightarrow> \<exists>v. coerce nts raw ty = Inr v \<and> v \<noteq> JNull \<and> is_cell v"
proof (cases "absent raw")
  case True
  then show ?thesis by (simp add: coerce_absent is_cell_def)
next
  case False
  assume c: "is_cell raw"
  show ?thesis
  proof (cases "integer_type ty")
    case True
    from c obtain n where n: "ToNumber raw = Inr n" using ToNumber_cell by blast
    show ?thesis
      by (simp add: coerce_integer_type [OF True False n] is_cell_def)
  next
    case nt: False
    show ?thesis
    proof (cases "ty = JStr (js ''boolean'')")
      case True
      with False c show ?thesis
        by (cases raw)
          (simp_all add: coerce_def absent_def type_literals_distinct [symmetric]
             is_cell_def Let_def)
    next
      case nb: False
      show ?thesis
        by (simp add: coerce_text_type [OF nt nb False] is_cell_def)
    qed
  qed
qed

text \<open>
  C5. \<^verbatim>\<open>coerce\<close> is total on its input domain: for a raw value that is a string, a
  number, a boolean, \<^verbatim>\<open>null\<close> or \<^verbatim>\<open>undefined\<close>, and any declared type, it returns (it does
  not throw) and the result is never \<^verbatim>\<open>null\<close>; an absent raw value (\<^verbatim>\<open>undefined\<close> or
  \<^verbatim>\<open>null\<close>) gives \<^verbatim>\<open>undefined\<close>; and the values a type does not support give \<^verbatim>\<open>undefined\<close>
  instead of an error: under an integer type a value whose numeric conversion is not a
  whole number, under a text type a value whose string is blank.
\<close>

theorem coerce_total:
  "is_cell raw \<Longrightarrow>
     (\<exists>v. coerce nts raw ty = Inr v \<and> v \<noteq> JNull \<and> is_cell v) \<and>
     (absent raw \<longrightarrow> coerce nts raw ty = Inr JUndefined) \<and>
     (integer_type ty \<and> (\<forall>n. ToNumber raw = Inr n \<longrightarrow> \<not> isInteger n)
        \<longrightarrow> coerce nts raw ty = Inr JUndefined) \<and>
     (\<not> integer_type ty \<and> ty \<noteq> JStr (js ''boolean'') \<and> trim (ToString nts raw) = []
        \<longrightarrow> coerce nts raw ty = Inr JUndefined)"
proof (intro conjI impI)
  assume c: "is_cell raw"
  show "\<exists>v. coerce nts raw ty = Inr v \<and> v \<noteq> JNull \<and> is_cell v"
    using c by (rule coerce_cell_returns)
  show "coerce nts raw ty = Inr JUndefined" if "absent raw"
    using that by (rule coerce_absent)
  show "coerce nts raw ty = Inr JUndefined"
    if h: "integer_type ty \<and> (\<forall>n. ToNumber raw = Inr n \<longrightarrow> \<not> isInteger n)"
  proof (cases "absent raw")
    case True
    then show ?thesis by (rule coerce_absent)
  next
    case False
    from c obtain n where n: "ToNumber raw = Inr n" using ToNumber_cell by blast
    with h have "\<not> isInteger n" by blast
    then show ?thesis using h by (simp add: coerce_integer_type [OF _ False n])
  qed
  show "coerce nts raw ty = Inr JUndefined"
    if h: "\<not> integer_type ty \<and> ty \<noteq> JStr (js ''boolean'') \<and> trim (ToString nts raw) = []"
  proof (cases "absent raw")
    case True
    then show ?thesis by (rule coerce_absent)
  next
    case False
    with h show ?thesis by (simp add: coerce_text_type)
  qed
qed

theorem coerce_total_witness:
  "is_cell (JStr (js ''abc'')) \<and>
   coerce (\<lambda>n. js ''0'') (JStr (js ''abc'')) (JStr (js ''integer'')) = Inr JUndefined \<and>
   coerce (\<lambda>n. js ''0'') (JStr (js ''  '')) (JStr (js ''text'')) = Inr JUndefined \<and>
   coerce (\<lambda>n. js ''0'') JNull (JStr (js ''boolean'')) = Inr JUndefined"
proof -
  have c: "is_cell v" if "v = JNull \<or> (\<exists>s. v = JStr s)" for v
    using that by (auto simp: is_cell_def)
  have i: "integer_type (JStr (js ''integer''))" by (simp add: integer_type_def)
  have t: "\<not> integer_type (JStr (js ''text''))" "JStr (js ''text'') \<noteq> JStr (js ''boolean'')"
    by (simp_all add: integer_type_def js_def)
  have n: "\<forall>n. ToNumber (JStr (js ''abc'')) = Inr n \<longrightarrow> \<not> isInteger n"
    by (simp add: ToNumber_def StringToNumber_abc isInteger_def)
  have b: "trim (ToString (\<lambda>n. js ''0'') (JStr (js ''  ''))) = []"
    by (simp add: ToString_def trim_def js_def is_ws_def)
  have a: "absent JNull" by (simp add: absent_def)
  show ?thesis
    using coerce_total [of "JStr (js ''abc'')" "\<lambda>n. js ''0''" "JStr (js ''integer'')"]
      coerce_total [of "JStr (js ''  '')" "\<lambda>n. js ''0''" "JStr (js ''text'')"]
      coerce_total [of JNull "\<lambda>n. js ''0''" "JStr (js ''boolean'')"]
      c i t n b a
    by blast
qed

text \<open>
  C6. For a present raw cell value and the declared type \<^verbatim>\<open>"integer"\<close> or \<^verbatim>\<open>"long"\<close>,
  \<^verbatim>\<open>coerce\<close> returns \<^verbatim>\<open>undefined\<close> unless the numeric conversion \<^verbatim>\<open>Number(raw)\<close> is a whole
  number, and then it returns that number: \<^verbatim>\<open>"12.5"\<close> gives \<^verbatim>\<open>undefined\<close>, \<^verbatim>\<open>"12"\<close> gives
  12, \<^verbatim>\<open>"abc"\<close> gives \<^verbatim>\<open>undefined\<close>.
\<close>

theorem coerce_integer:
  "integer_type ty \<Longrightarrow>
     (is_cell raw \<and> \<not> absent raw \<longrightarrow>
        (\<exists>n. ToNumber raw = Inr n \<and>
           coerce nts raw ty =
             Inr (if n = NegZero \<or> (\<exists>k::int. n = Fin (of_int k)) then JNum n else JUndefined))) \<and>
     coerce nts (JStr (js ''12.5'')) ty = Inr JUndefined \<and>
     coerce nts (JStr (js ''12'')) ty = Inr (JNum (Fin 12)) \<and>
     coerce nts (JStr (js ''abc'')) ty = Inr JUndefined"
proof (intro conjI impI)
  assume i: "integer_type ty"
  have p: "\<not> absent (JStr s)" for s by (simp add: absent_def)
  show "\<exists>n. ToNumber raw = Inr n \<and>
          coerce nts raw ty =
            Inr (if n = NegZero \<or> (\<exists>k::int. n = Fin (of_int k)) then JNum n else JUndefined)"
    if h: "is_cell raw \<and> \<not> absent raw"
  proof -
    from h obtain n where n: "ToNumber raw = Inr n" using ToNumber_cell by blast
    from h have "coerce nts raw ty = Inr (if isInteger n then JNum n else JUndefined)"
      using coerce_integer_type [OF i _ n] by blast
    with n show ?thesis by (simp add: isInteger_iff)
  qed
  have "ToNumber (JStr (js ''12.5'')) = Inr (Fin (25 / 2))"
    by (simp add: ToNumber_def StringToNumber_12_5)
  from coerce_integer_type [OF i p this]
  show "coerce nts (JStr (js ''12.5'')) ty = Inr JUndefined"
    by (simp add: not_isInteger_12_5)
  have "ToNumber (JStr (js ''12'')) = Inr (Fin 12)"
    by (simp add: ToNumber_def StringToNumber_12)
  from coerce_integer_type [OF i p this]
  show "coerce nts (JStr (js ''12'')) ty = Inr (JNum (Fin 12))"
    by (simp add: isInteger_def)
  have "ToNumber (JStr (js ''abc'')) = Inr NaN"
    by (simp add: ToNumber_def StringToNumber_abc)
  from coerce_integer_type [OF i p this]
  show "coerce nts (JStr (js ''abc'')) ty = Inr JUndefined"
    by (simp add: isInteger_def)
qed

theorem coerce_integer_witness:
  "coerce (\<lambda>n. js ''0'') (JNum (Fin 7)) (JStr (js ''long'')) = Inr (JNum (Fin 7)) \<and>
   coerce (\<lambda>n. js ''0'') (JNum (Fin (7 / 2))) (JStr (js ''long'')) = Inr JUndefined \<and>
   coerce (\<lambda>n. js ''0'') (JStr (js ''12'')) (JStr (js ''long'')) = Inr (JNum (Fin 12))"
proof -
  have i: "integer_type (JStr (js ''long''))" by (simp add: integer_type_def)
  have c: "is_cell (JNum n) \<and> \<not> absent (JNum n)" for n
    by (simp add: is_cell_def absent_def)
  have n: "ToNumber (JNum n) = Inr n" for n by (simp add: ToNumber_def)
  have k: "\<exists>k::int. Fin 7 = Fin (of_int k)"
    by (rule exI [of _ 7]) simp
  have "(7 / 2 :: rat) \<noteq> of_int k" for k :: int
  proof
    assume "(7 / 2 :: rat) = of_int k"
    then have "(of_int (2 * k) :: rat) = of_int 7" by simp
    then have "2 * k = 7" by (simp only: of_int_eq_iff)
    then show False by presburger
  qed
  then have nk: "\<not> (Fin (7 / 2) = NegZero \<or> (\<exists>k::int. Fin (7 / 2) = Fin (of_int k)))"
    by simp
  show ?thesis
    using coerce_integer [OF i, of "JNum (Fin 7)" "\<lambda>n. js ''0''"]
      coerce_integer [OF i, of "JNum (Fin (7 / 2))" "\<lambda>n. js ''0''"]
      c n k nk
    by (simp del: of_int_numeral)
qed

text \<open>
  C10. Under the declared type \<^verbatim>\<open>"integer"\<close> or \<^verbatim>\<open>"long"\<close>, a present string that is
  empty or all white space is coerced to the number 0 and the boolean \<^verbatim>\<open>true\<close> to 1,
  since \<^verbatim>\<open>Number(raw)\<close> is applied before the whole-number test; a row whose integer
  cell is such a string gets the field with value 0 instead of losing it (for every
  field name but \<^verbatim>\<open>__proto__\<close>, under which an assignment stores nothing).
\<close>

theorem coerce_blank_integer_zero:
  "t = js ''integer'' \<or> t = js ''long'' \<Longrightarrow> \<forall>c\<in>set s. is_ws c \<Longrightarrow>
     coerce nts (JStr s) (JStr t) = Inr (JNum (Fin 0)) \<and>
     coerce nts (JBool True) (JStr t) = Inr (JNum (Fin 1)) \<and>
     (name \<noteq> js ''__proto__'' \<longrightarrow>
        rowToDoc nts [JStr s] [name] [name \<mapsto> t] []
          = Inr (Some \<lparr>props = [(name, JNum (Fin 0))], proto = True\<rparr>))"
proof -
  assume t: "t = js ''integer'' \<or> t = js ''long''" and s: "\<forall>c\<in>set s. is_ws c"
  from t have i: "integer_type (JStr t)" by (simp add: integer_type_def)
  have "ToNumber (JStr s) = Inr (Fin 0)"
    using s by (simp add: ToNumber_def StringToNumber_blank)
  from coerce_integer_type [OF i _ this]
  have a: "coerce nts (JStr s) (JStr t) = Inr (JNum (Fin 0))"
    by (simp add: absent_def isInteger_def)
  have "ToNumber (JBool True) = Inr (Fin 1)" by (simp add: ToNumber_def)
  from coerce_integer_type [OF i _ this]
  have b: "coerce nts (JBool True) (JStr t) = Inr (JNum (Fin 1))"
    by (simp add: absent_def isInteger_def)
  have "rowToDoc nts [JStr s] [name] [name \<mapsto> t] []
          = Inr (Some \<lparr>props = [(name, JNum (Fin 0))], proto = True\<rparr>)"
    if "name \<noteq> js ''__proto__''"
    using that
    by (simp add: rowToDoc_def cell_at_def type_of_field_def a empty_object_def set_prop_def
        define_prop_def)
  with a b show ?thesis by simp
qed

theorem coerce_blank_integer_zero_witness:
  "coerce (\<lambda>n. js ''0'') (JStr []) (JStr (js ''integer'')) = Inr (JNum (Fin 0)) \<and>
   coerce (\<lambda>n. js ''0'') (JStr (js '' '')) (JStr (js ''integer'')) = Inr (JNum (Fin 0)) \<and>
   rowToDoc (\<lambda>n. js ''0'') [JStr []] [js ''code''] [js ''code'' \<mapsto> js ''integer''] []
     = Inr (Some \<lparr>props = [(js ''code'', JNum (Fin 0))], proto = True\<rparr>)"
proof -
  have w: "\<forall>c\<in>set (js '' ''). is_ws c" by (simp add: js_def is_ws_def)
  have e: "\<forall>c\<in>set ([] :: jsstring). is_ws c" by simp
  have n: "js ''code'' \<noteq> js ''__proto__''" by (simp add: js_def)
  show ?thesis
    using coerce_blank_integer_zero [OF _ e, of "js ''integer''" "\<lambda>n. js ''0''" "js ''code''"]
      coerce_blank_integer_zero [OF _ w, of "js ''integer''" "\<lambda>n. js ''0''" "js ''code''"] n
    by simp
qed

section \<open>Row-to-document mapper\<close>

subsection \<open>Plain objects\<close>

lemma insert_prop_ordinary: "array_index k = None \<Longrightarrow> insert_prop d k v = d @ [(k, v)]"
  by (induction d) simp_all

text \<open>An assignment under a new, ordinary name appends the property.\<close>

lemma set_prop_ordinary:
  "map_of (props obj) k = None \<Longrightarrow> k \<noteq> js ''__proto__'' \<Longrightarrow> array_index k = None \<Longrightarrow>
   set_prop obj k v = obj\<lparr>props := props obj @ [(k, v)]\<rparr>"
  by (simp add: set_prop_def define_prop_def insert_prop_ordinary)

lemmas key_eval = array_index_def digits_val_def digit_val_def object_prototype_keys_def js_def

text \<open>
  The three ways in which a plain object is not a table of its own keys: an array
  index is listed first, a primitive assigned to \<^verbatim>\<open>__proto__\<close> is dropped, and an
  inherited member is not \<^verbatim>\<open>undefined\<close>.
\<close>

lemma set_prop_array_index:
  "set_prop \<lparr>props = [(js ''a'', v)], proto = True\<rparr> (js ''1'') w
     = \<lparr>props = [(js ''1'', w), (js ''a'', v)], proto = True\<rparr>"
  by (simp add: set_prop_def define_prop_def key_eval)

lemma props_empty_object: "props empty_object = []" "proto empty_object"
  by (simp_all add: empty_object_def)

lemma set_prop_proto_primitive:
  "v \<noteq> JNull \<Longrightarrow> set_prop empty_object (js ''__proto__'') v = empty_object"
  by (simp add: set_prop_def empty_object_def)

lemma prop_undefined_inherited:
  "\<not> prop_undefined empty_object (js ''constructor'')"
  "\<not> prop_undefined empty_object (js ''__proto__'')"
  "prop_undefined empty_object (js ''isDeleted'')"
  by (simp_all add: prop_undefined_def empty_object_def key_eval)

subsection \<open>The mapper\<close>

lemma fields_loop_absent:
  "\<forall>j. i \<le> j \<and> j < i + length names \<longrightarrow> absent (cell_at row j) \<Longrightarrow>
   fields_loop nts row ft names i doc = Inr doc"
proof (induction names arbitrary: i)
  case Nil
  show ?case by simp
next
  case (Cons name names)
  from Cons.prems have "absent (cell_at row i)" by simp
  then have c: "coerce nts (cell_at row i) (type_of_field ft name) = Inr JUndefined"
    by (rule coerce_absent)
  from Cons.prems
  have "\<forall>j. Suc i \<le> j \<and> j < Suc i + length names \<longrightarrow> absent (cell_at row j)" by simp
  then have "fields_loop nts row ft names (Suc i) doc = Inr doc" by (rule Cons.IH)
  with c show ?case by simp
qed

text \<open>What the mapper makes of a row all of whose cells are absent: the defaults.\<close>

lemma rowToDoc_absent_row:
  "\<forall>i<length names. absent (cell_at row i) \<Longrightarrow>
   rowToDoc nts row names ft ds =
     Inr (if props (defaults_loop ds empty_object) = [] then None
          else Some (defaults_loop ds empty_object))"
proof -
  assume "\<forall>i<length names. absent (cell_at row i)"
  then have "fields_loop nts row ft names 0 empty_object = Inr empty_object"
    by (intro fields_loop_absent) simp
  then show ?thesis by (simp add: rowToDoc_def Let_def)
qed

text \<open>
  C3, as amended. For a row in which the cell of every declared field is absent
  (\<^verbatim>\<open>undefined\<close>, beyond the end of the row, or \<^verbatim>\<open>null\<close>), and an empty defaults map, the
  mapper returns \<^verbatim>\<open>null\<close>: no document.
\<close>

theorem rowToDoc_empty_row_discarded:
  "\<forall>i<length names. absent (cell_at row i) \<Longrightarrow> rowToDoc nts row names ft [] = Inr None"
  by (simp add: rowToDoc_absent_row empty_object_def)

theorem rowToDoc_empty_row_discarded_witness:
  "rowToDoc (\<lambda>n. js ''0'') [JUndefined, JNull] [js ''namePrimary'', js ''title'', js ''code'']
     [js ''namePrimary'' \<mapsto> js ''text'', js ''title'' \<mapsto> js ''text'', js ''code'' \<mapsto> js ''integer'']
     [] = Inr None"
proof -
  have "absent (cell_at [JUndefined, JNull] i)" for i
  proof (cases i)
    case 0
    then show ?thesis by (simp add: cell_at_def absent_def)
  next
    case (Suc j)
    then show ?thesis by (cases j) (simp_all add: cell_at_def absent_def)
  qed
  then have "\<forall>i<length [js ''namePrimary'', js ''title'', js ''code''].
               absent (cell_at [JUndefined, JNull] i)"
    by blast
  then show ?thesis by (rule rowToDoc_empty_row_discarded)
qed

text \<open>
  As the claim states it, for every defaults map, it fails: with the default
  \<^verbatim>\<open>isDeleted: false\<close> an empty row becomes the document \<^verbatim>\<open>{isDeleted: false}\<close>.
\<close>

theorem rowToDoc_empty_row_counterexample:
  "\<not> (\<forall>nts row names ft ds.
        (\<forall>i<length names. absent (cell_at row i)) \<longrightarrow> rowToDoc nts row names ft ds = Inr None)"
proof
  assume a: "\<forall>nts row names ft ds.
        (\<forall>i<length names. absent (cell_at row i)) \<longrightarrow> rowToDoc nts row names ft ds = Inr None"
  have "\<forall>i<length [js ''namePrimary'']. absent (cell_at [] i)"
    by (simp add: cell_at_def absent_def)
  with a have "rowToDoc (\<lambda>n. []) [] [js ''namePrimary''] [js ''namePrimary'' \<mapsto> js ''text'']
      [(js ''isDeleted'', JBool False)] = Inr None"
    by blast
  moreover
  have "rowToDoc (\<lambda>n. []) [] [js ''namePrimary''] [js ''namePrimary'' \<mapsto> js ''text'']
      [(js ''isDeleted'', JBool False)]
      = Inr (Some \<lparr>props = [(js ''isDeleted'', JBool False)], proto = True\<rparr>)"
  proof -
    have "set_prop empty_object (js ''isDeleted'') (JBool False)
        = \<lparr>props = [(js ''isDeleted'', JBool False)], proto = True\<rparr>"
      by (simp add: set_prop_def define_prop_def empty_object_def key_eval)
    then show ?thesis
      by (simp add: rowToDoc_def cell_at_def coerce_def prop_undefined_inherited)
  qed
  ultimately show False by simp
qed

text \<open>
  Two rows the mapper discards although a value was at hand: a default under an
  inherited name is never applied, and a cell under the field name \<^verbatim>\<open>__proto__\<close> is never
  stored.
\<close>

lemma rowToDoc_inherited_default:
  "rowToDoc nts [] [js ''namePrimary''] ft [(js ''constructor'', v)] = Inr None"
  by (simp add: rowToDoc_def cell_at_def coerce_def prop_undefined_inherited
      props_empty_object)

lemma rowToDoc_proto_field:
  "rowToDoc nts [JStr (js ''x'')] [js ''__proto__''] Map.empty [] = Inr None"
proof -
  have "trim (js ''x'') = js ''x''" by (simp add: trim_def js_def is_ws_def)
  then have "coerce nts (JStr (js ''x'')) JUndefined = Inr (JStr (js ''x''))"
    by (simp add: coerce_def ToString_def Let_def js_def)
  then show ?thesis
    by (simp add: rowToDoc_def cell_at_def type_of_field_def set_prop_proto_primitive
        props_empty_object)
qed

section \<open>Bulk loader\<close>

text \<open>
  What a list of batches does when each is sent as one bulk request: the calls it adds
  to the log, and the state it leaves the backend in.
\<close>

lemma docs_of_ops_batch:
  "docs_of_ops (operations (bulk_request_of index batch)) = map props batch"
  by (induction batch) (simp_all add: bulk_request_of_def)

text \<open>
  A flush that does not fail hands the batch to the bulk API in one request, and does
  nothing when the batch is empty.
\<close>

lemma flushBatch_succeeds:
  assumes "\<forall>req s. fst (es_bulk pf req s) = None"
  shows "flushBatch pf batch index w =
           (None,
            if batch = [] then w
            else \<lparr>backend = snd (es_bulk pf (bulk_request_of index batch) (backend w)),
                  calls = calls w @ [BulkCall (bulk_request_of index batch)]\<rparr>)"
proof (cases "batch = []")
  case True
  then show ?thesis by (simp add: flushBatch_def)
next
  case False
  obtain r s where rs: "es_bulk pf (bulk_request_of index batch) (backend w) = (r, s)"
    by (cases "es_bulk pf (bulk_request_of index batch) (backend w)")
  with assms have "r = None" by (metis fst_conv)
  with False rs show ?thesis
    by (simp add: flushBatch_def Let_def bulk_request_of_def)
qed

lemma row_docs_Cons:
  "row_docs pf cfg (row # rows) =
     (case rowToDoc (numberToString pf) row (fieldNames cfg) (fieldTypes cfg) (defaults cfg) of
        Inr (Some d) \<Rightarrow> d # row_docs pf cfg rows
      | _ \<Rightarrow> row_docs pf cfg rows)"
  by (simp add: row_docs_def List.map_filter_simps split: sum.splits option.splits)

text \<open>
  The loop invariant: the batches sent so far followed by the pending batch are the
  documents of the rows consumed, \<^verbatim>\<open>indexed\<close> counts the documents sent, and each batch
  sent went to the backend as one bulk request.
\<close>

lemma rows_loop_succeeds:
  assumes ok: "\<forall>req s. fst (es_bulk pf req s) = None"
  shows "\<forall>row\<in>set rows. \<exists>r. rowToDoc (numberToString pf) row (fieldNames cfg) (fieldTypes cfg)
                               (defaults cfg) = Inr r \<Longrightarrow>
         \<exists>batch' n' w' batches.
           rows_loop pf cfg rc rows batch n w = (Inr (batch', n'), w') \<and>
           concat batches @ batch' = batch @ row_docs pf cfg rows \<and>
           n' = n + length (concat batches) \<and>
           calls w' = calls w @ map (\<lambda>b. BulkCall (bulk_request_of (indexName rc) b)) batches \<and>
           backend w' =
             fold (\<lambda>b s. snd (es_bulk pf (bulk_request_of (indexName rc) b) s)) batches (backend w)"
proof (induction rows arbitrary: batch n w)
  case Nil
  have "rows_loop pf cfg rc [] batch n w = (Inr (batch, n), w) \<and>
        concat [] @ batch = batch @ row_docs pf cfg [] \<and> n = n + length (concat ([] :: jsobject list list)) \<and>
        calls w = calls w @ map (\<lambda>b. BulkCall (bulk_request_of (indexName rc) b)) [] \<and>
        backend w = fold (\<lambda>b s. snd (es_bulk pf (bulk_request_of (indexName rc) b) s)) [] (backend w)"
    by (simp add: row_docs_def List.map_filter_simps)
  then show ?case by blast
next
  case (Cons row rows)
  from Cons.prems obtain r where
    r: "rowToDoc (numberToString pf) row (fieldNames cfg) (fieldTypes cfg) (defaults cfg) = Inr r"
    by auto
  from Cons.prems have rest: "\<forall>row\<in>set rows. \<exists>r. rowToDoc (numberToString pf) row
      (fieldNames cfg) (fieldTypes cfg) (defaults cfg) = Inr r"
    by simp
  show ?case
  proof (cases r)
    case None
    from Cons.IH [OF rest, of batch n w] r None show ?thesis
      by (simp add: row_docs_Cons)
  next
    case (Some d)
    show ?thesis
    proof (cases "batchSize rc \<le> int (length (batch @ [d]))")
      case False
      from Cons.IH [OF rest, of "batch @ [d]" n w] r Some False show ?thesis
        by (simp add: row_docs_Cons Let_def)
    next
      case True
      define w1 where
        "w1 = \<lparr>backend = snd (es_bulk pf (bulk_request_of (indexName rc) (batch @ [d])) (backend w)),
               calls = calls w @ [BulkCall (bulk_request_of (indexName rc) (batch @ [d]))]\<rparr>"
      have f: "flushBatch pf (batch @ [d]) (indexName rc) w = (None, w1)"
        by (simp add: flushBatch_succeeds [OF ok] w1_def)
      from Cons.IH [OF rest, of "[]" "n + length (batch @ [d])" w1]
      obtain batch' n' w' batches where
        l: "rows_loop pf cfg rc rows [] (n + length (batch @ [d])) w1 = (Inr (batch', n'), w')" and
        c: "concat batches @ batch' = row_docs pf cfg rows" and
        n: "n' = n + length (batch @ [d]) + length (concat batches)" and
        cs: "calls w' = calls w1 @ map (\<lambda>b. BulkCall (bulk_request_of (indexName rc) b)) batches" and
        bs: "backend w' =
          fold (\<lambda>b s. snd (es_bulk pf (bulk_request_of (indexName rc) b) s)) batches (backend w1)"
        by auto
      have "rows_loop pf cfg rc (row # rows) batch n w = (Inr (batch', n'), w') \<and>
        concat ((batch @ [d]) # batches) @ batch' = batch @ row_docs pf cfg (row # rows) \<and>
        n' = n + length (concat ((batch @ [d]) # batches)) \<and>
        calls w' = calls w @
          map (\<lambda>b. BulkCall (bulk_request_of (indexName rc) b)) ((batch @ [d]) # batches) \<and>
        backend w' =
          fold (\<lambda>b s. snd (es_bulk pf (bulk_request_of (indexName rc) b) s))
            ((batch @ [d]) # batches) (backend w)"
        using r Some True f l c n cs bs
        by (simp add: row_docs_Cons Let_def w1_def)
      then show ?thesis by blast
    qed
  qed
qed

text \<open>
  When no flush fails and the mapper throws on no row, the loader returns the number of
  documents the rows produce, and has sent exactly those documents to the backend, in
  order, cut into batches, each batch as one bulk request.
\<close>

lemma loadAndIndex_succeeds:
  assumes ok: "\<forall>req s. fst (es_bulk pf req s) = None"
    and src: "loadExcelRows pf (excelPath rc) = Inr rows"
    and rows: "\<forall>row\<in>set rows. \<exists>r. rowToDoc (numberToString pf) row (fieldNames cfg)
                 (fieldTypes cfg) (defaults cfg) = Inr r"
  shows "\<exists>w' batches.
           loadAndIndex pf cfg rc w = (Inr (length (row_docs pf cfg rows)), w') \<and>
           concat batches = row_docs pf cfg rows \<and>
           calls w' = calls w @ map (\<lambda>b. BulkCall (bulk_request_of (indexName rc) b)) batches \<and>
           backend w' =
             fold (\<lambda>b s. snd (es_bulk pf (bulk_request_of (indexName rc) b) s)) batches (backend w)"
proof -
  from rows_loop_succeeds [OF ok rows, of rc "[]" 0 w]
  obtain batch' n' w1 batches where
    l: "rows_loop pf cfg rc rows [] 0 w = (Inr (batch', n'), w1)" and
    c: "concat batches @ batch' = row_docs pf cfg rows" and
    n: "n' = length (concat batches)" and
    cs: "calls w1 = calls w @ map (\<lambda>b. BulkCall (bulk_request_of (indexName rc) b)) batches" and
    bs: "backend w1 =
      fold (\<lambda>b s. snd (es_bulk pf (bulk_request_of (indexName rc) b) s)) batches (backend w)"
    by auto
  from c n have len: "n' + length batch' = length (row_docs pf cfg rows)"
    by (metis length_append)
  show ?thesis
  proof (cases "batch' = []")
    case True
    have "loadAndIndex pf cfg rc w = (Inr (length (row_docs pf cfg rows)), w1)"
      using src l len True by (simp add: loadAndIndex_def flushBatch_succeeds [OF ok])
    with c cs bs True show ?thesis by auto
  next
    case False
    define w2 where
      "w2 = \<lparr>backend = snd (es_bulk pf (bulk_request_of (indexName rc) batch') (backend w1)),
             calls = calls w1 @ [BulkCall (bulk_request_of (indexName rc) batch')]\<rparr>"
    have "loadAndIndex pf cfg rc w = (Inr (length (row_docs pf cfg rows)), w2) \<and>
      concat (batches @ [batch']) = row_docs pf cfg rows \<and>
      calls w2 = calls w @
        map (\<lambda>b. BulkCall (bulk_request_of (indexName rc) b)) (batches @ [batch']) \<and>
      backend w2 =
        fold (\<lambda>b s. snd (es_bulk pf (bulk_request_of (indexName rc) b) s))
          (batches @ [batch']) (backend w)"
      using src l len False c cs bs
      by (simp add: loadAndIndex_def flushBatch_succeeds [OF ok] w2_def)
    then show ?thesis by blast
  qed
qed

lemma row_docs_all:
  "\<forall>row\<in>set rows. \<exists>d. rowToDoc (numberToString pf) row (fieldNames cfg) (fieldTypes cfg)
      (defaults cfg) = Inr (Some d) \<Longrightarrow>
   length (row_docs pf cfg rows) = length rows"
  by (induction rows) (auto simp: row_docs_Cons row_docs_def List.map_filter_simps)

text \<open>
  C4. From a sheet with a header row and \<open>N \<ge> 1\<close> data rows, each of which the mapper
  turns into a document, with a batch size of at least 1 and no failing bulk call,
  \<^verbatim>\<open>loadAndIndex\<close> returns \<open>N\<close> and has handed exactly the \<open>N\<close> documents of the rows to
  the bulk API: cut into batches in order, each batch sent as one bulk request of
  \<^verbatim>\<open>index\<close> actions into the index, and the backend is in the state these requests leave
  it in (the batch size decides how the documents are grouped, not how many are
  sent). From a sheet with fewer than two rows (no data row) it throws
  \<^verbatim>\<open>No data rows in sheet\<close> and has made no call to the backend: it does not return 0.
\<close>

theorem loadAndIndex_count:
  "((\<forall>req s. fst (es_bulk pf req s) = None) \<and> 1 \<le> batchSize rc \<and>
    excelFiles pf (excelPath rc) = Workbook (Some (header # rows)) \<and> rows \<noteq> [] \<and>
    (\<forall>row\<in>set rows. \<exists>d. rowToDoc (numberToString pf) row (fieldNames cfg) (fieldTypes cfg)
        (defaults cfg) = Inr (Some d))
    \<longrightarrow> fst (loadAndIndex pf cfg rc w) = Inr (length rows) \<and>
        length (row_docs pf cfg rows) = length rows \<and>
        (\<exists>batches.
           concat batches = row_docs pf cfg rows \<and>
           calls (snd (loadAndIndex pf cfg rc w)) =
             calls w @ map (\<lambda>b. BulkCall (bulk_request_of (indexName rc) b)) batches \<and>
           backend (snd (loadAndIndex pf cfg rc w)) =
             fold (\<lambda>b s. snd (es_bulk pf (bulk_request_of (indexName rc) b) s)) batches
               (backend w))) \<and>
   (excelFiles pf (excelPath rc) = Workbook (Some sheet) \<and> length sheet < 2
    \<longrightarrow> loadAndIndex pf cfg rc w = (Inl (Error (js ''No data rows in sheet'')), w))"
proof (intro conjI impI)
  assume h: "(\<forall>req s. fst (es_bulk pf req s) = None) \<and> 1 \<le> batchSize rc \<and>
    excelFiles pf (excelPath rc) = Workbook (Some (header # rows)) \<and> rows \<noteq> [] \<and>
    (\<forall>row\<in>set rows. \<exists>d. rowToDoc (numberToString pf) row (fieldNames cfg) (fieldTypes cfg)
        (defaults cfg) = Inr (Some d))"
  then have ok: "\<forall>req s. fst (es_bulk pf req s) = None" by blast
  from h have "length (header # rows) \<ge> 2" by (cases rows) simp_all
  with h have src: "loadExcelRows pf (excelPath rc) = Inr rows"
    by (simp add: loadExcelRows_def)
  from h have all: "\<forall>row\<in>set rows. \<exists>d. rowToDoc (numberToString pf) row (fieldNames cfg)
      (fieldTypes cfg) (defaults cfg) = Inr (Some d)"
    by blast
  then have some: "\<forall>row\<in>set rows. \<exists>r. rowToDoc (numberToString pf) row (fieldNames cfg)
      (fieldTypes cfg) (defaults cfg) = Inr r"
    by blast
  have len: "length (row_docs pf cfg rows) = length rows"
    using all by (rule row_docs_all)
  from loadAndIndex_succeeds [OF ok src some, of w]
  obtain w' batches where
    r: "loadAndIndex pf cfg rc w = (Inr (length (row_docs pf cfg rows)), w')" and
    c: "concat batches = row_docs pf cfg rows" and
    cs: "calls w' = calls w @ map (\<lambda>b. BulkCall (bulk_request_of (indexName rc) b)) batches" and
    bs: "backend w' =
      fold (\<lambda>b s. snd (es_bulk pf (bulk_request_of (indexName rc) b) s)) batches (backend w)"
    by auto
  from r len show "fst (loadAndIndex pf cfg rc w) = Inr (length rows)" by simp
  from len show "length (row_docs pf cfg rows) = length rows" .
  from r c cs bs show "\<exists>batches.
      concat batches = row_docs pf cfg rows \<and>
      calls (snd (loadAndIndex pf cfg rc w)) =
        calls w @ map (\<lambda>b. BulkCall (bulk_request_of (indexName rc) b)) batches \<and>
      backend (snd (loadAndIndex pf cfg rc w)) =
        fold (\<lambda>b s. snd (es_bulk pf (bulk_request_of (indexName rc) b) s)) batches (backend w)"
    by auto
next
  assume "excelFiles pf (excelPath rc) = Workbook (Some sheet) \<and> length sheet < 2"
  then show "loadAndIndex pf cfg rc w = (Inl (Error (js ''No data rows in sheet'')), w)"
    by (simp add: loadAndIndex_def loadExcelRows_def)
qed

text \<open>The sample sheet, row by row, and what a backend that keeps its documents holds.\<close>

lemma sample_rowToDoc:
  "rowToDoc nts [JStr (js ''Herzl''), JStr (js ''12'')] (fieldNames sample_config)
      (fieldTypes sample_config) (defaults sample_config)
     = Inr (Some \<lparr>props = [(js ''namePrimary'', JStr (js ''Herzl'')), (js ''code'', JNum (Fin 12)),
                          (js ''isDeleted'', JBool False)], proto = True\<rparr>)"
  "rowToDoc nts [JStr (js ''Allenby'')] (fieldNames sample_config)
      (fieldTypes sample_config) (defaults sample_config)
     = Inr (Some \<lparr>props = [(js ''namePrimary'', JStr (js ''Allenby'')),
                          (js ''isDeleted'', JBool False)], proto = True\<rparr>)"
  "rowToDoc nts [JStr (js ''Ben Yehuda''), JStr (js ''12'')] (fieldNames sample_config)
      (fieldTypes sample_config) (defaults sample_config)
     = Inr (Some \<lparr>props = [(js ''namePrimary'', JStr (js ''Ben Yehuda'')),
                          (js ''code'', JNum (Fin 12)), (js ''isDeleted'', JBool False)],
                 proto = True\<rparr>)"
proof -
  have n: "ToNumber (JStr (js ''12'')) = Inr (Fin 12)"
    by (simp add: ToNumber_def StringToNumber_12)
  have i: "coerce nts (JStr (js ''12'')) (JStr (js ''integer'')) = Inr (JNum (Fin 12))"
    using coerce_integer_type [OF _ _ n, of "JStr (js ''integer'')" nts]
    by (simp add: integer_type_def absent_def isInteger_def)
  have t: "coerce nts (JStr s) (JStr (js ''text'')) =
             Inr (if trim s = [] then JUndefined else JStr (trim s))" for s
    using coerce_text_type [of "JStr (js ''text'')" "JStr s" nts]
    by (simp add: integer_type_def absent_def ToString_def js_def)
  have u: "coerce nts JUndefined ty = Inr JUndefined" for ty
    by (simp add: coerce_def)
  have f: "js ''namePrimary'' \<noteq> js ''code''" "js ''code'' \<noteq> js ''namePrimary''"
    "js ''isDeleted'' \<noteq> js ''code''" "js ''isDeleted'' \<noteq> js ''namePrimary''"
    by (simp_all add: js_def)
  have w: "trim (js ''Herzl'') = js ''Herzl''" "trim (js ''Allenby'') = js ''Allenby''"
    "trim (js ''Ben Yehuda'') = js ''Ben Yehuda''"
    by (simp_all add: trim_def js_def is_ws_def)
  have e: "js ''Herzl'' \<noteq> []" "js ''Allenby'' \<noteq> []" "js ''Ben Yehuda'' \<noteq> []"
    by (simp_all add: js_def)
  have k: "array_index (js ''namePrimary'') = None" "array_index (js ''code'') = None"
    "array_index (js ''isDeleted'') = None"
    "js ''namePrimary'' \<noteq> js ''__proto__''" "js ''code'' \<noteq> js ''__proto__''"
    "js ''isDeleted'' \<noteq> js ''__proto__''"
    "js ''isDeleted'' \<notin> set object_prototype_keys"
    by (simp_all add: key_eval)
  show "rowToDoc nts [JStr (js ''Herzl''), JStr (js ''12'')] (fieldNames sample_config)
      (fieldTypes sample_config) (defaults sample_config)
     = Inr (Some \<lparr>props = [(js ''namePrimary'', JStr (js ''Herzl'')), (js ''code'', JNum (Fin 12)),
                          (js ''isDeleted'', JBool False)], proto = True\<rparr>)"
    by (simp add: sample_config_def rowToDoc_def cell_at_def type_of_field_def empty_object_def
        prop_undefined_def set_prop_ordinary i t u f w e k)
  show "rowToDoc nts [JStr (js ''Allenby'')] (fieldNames sample_config)
      (fieldTypes sample_config) (defaults sample_config)
     = Inr (Some \<lparr>props = [(js ''namePrimary'', JStr (js ''Allenby'')),
                          (js ''isDeleted'', JBool False)], proto = True\<rparr>)"
    by (simp add: sample_config_def rowToDoc_def cell_at_def type_of_field_def empty_object_def
        prop_undefined_def set_prop_ordinary i t u f w e k)
  show "rowToDoc nts [JStr (js ''Ben Yehuda''), JStr (js ''12'')] (fieldNames sample_config)
      (fieldTypes sample_config) (defaults sample_config)
     = Inr (Some \<lparr>props = [(js ''namePrimary'', JStr (js ''Ben Yehuda'')),
                          (js ''code'', JNum (Fin 12)), (js ''isDeleted'', JBool False)],
                 proto = True\<rparr>)"
    by (simp add: sample_config_def rowToDoc_def cell_at_def type_of_field_def empty_object_def
        prop_undefined_def set_prop_ordinary i t u f w e k)
qed

lemma storing_platform_fold:
  "fold (\<lambda>b s. snd (es_bulk storing_platform (bulk_request_of index b) s)) batches s0
     = s0 @ map props (concat batches)"
  by (induction batches arbitrary: s0) (simp_all add: storing_platform_def docs_of_ops_batch)

theorem loadAndIndex_count_witness:
  "fst (loadAndIndex storing_platform sample_config (sample_run (js ''streets.xlsx'')) empty_index)
     = Inr 3 \<and>
   backend (snd (loadAndIndex storing_platform sample_config (sample_run (js ''streets.xlsx''))
       empty_index))
     = [[(js ''namePrimary'', JStr (js ''Herzl'')), (js ''code'', JNum (Fin 12)),
         (js ''isDeleted'', JBool False)],
        [(js ''namePrimary'', JStr (js ''Allenby'')), (js ''isDeleted'', JBool False)],
        [(js ''namePrimary'', JStr (js ''Ben Yehuda'')), (js ''code'', JNum (Fin 12)),
         (js ''isDeleted'', JBool False)]] \<and>
   loadAndIndex storing_platform sample_config (sample_run (js ''empty.xlsx'')) empty_index
     = (Inl (Error (js ''No data rows in sheet'')), empty_index)"
proof -
  let ?pf = storing_platform and ?rc = "sample_run (js ''streets.xlsx'')"
  have p: "js ''empty.xlsx'' \<noteq> js ''streets.xlsx''" by (simp add: js_def)
  have a: "\<forall>req s. fst (es_bulk ?pf req s) = None"
    by (simp add: storing_platform_def)
  have b: "1 \<le> batchSize ?rc" by (simp add: sample_run_def)
  have c: "excelFiles ?pf (excelPath ?rc) = Workbook (Some (hd sample_sheet # tl sample_sheet))"
    by (simp add: storing_platform_def sample_platform_def sample_run_def sample_sheet_def)
  have d: "tl sample_sheet \<noteq> []" "length (tl sample_sheet) = 3"
    by (simp_all add: sample_sheet_def)
  have e: "excelFiles ?pf (excelPath (sample_run (js ''empty.xlsx'')))
             = Workbook (Some [hd sample_sheet]) \<and> length [hd sample_sheet] < 2"
    by (simp add: storing_platform_def sample_platform_def sample_run_def p)
  have m: "\<forall>row\<in>set (tl sample_sheet).
     \<exists>d. rowToDoc (numberToString ?pf) row (fieldNames sample_config)
            (fieldTypes sample_config) (defaults sample_config) = Inr (Some d)"
    by (simp add: sample_sheet_def sample_rowToDoc)
  have docs: "map props (row_docs ?pf sample_config (tl sample_sheet))
     = [[(js ''namePrimary'', JStr (js ''Herzl'')), (js ''code'', JNum (Fin 12)),
         (js ''isDeleted'', JBool False)],
        [(js ''namePrimary'', JStr (js ''Allenby'')), (js ''isDeleted'', JBool False)],
        [(js ''namePrimary'', JStr (js ''Ben Yehuda'')), (js ''code'', JNum (Fin 12)),
         (js ''isDeleted'', JBool False)]]"
    by (simp add: sample_sheet_def row_docs_Cons sample_rowToDoc row_docs_def
        List.map_filter_simps)
  from loadAndIndex_count [of ?pf ?rc "hd sample_sheet" "tl sample_sheet" sample_config
      empty_index "[]"] a b c d m
  obtain batches where
    1: "fst (loadAndIndex ?pf sample_config ?rc empty_index) = Inr 3" and
    2: "concat batches = row_docs ?pf sample_config (tl sample_sheet)" and
    3: "backend (snd (loadAndIndex ?pf sample_config ?rc empty_index)) =
         fold (\<lambda>b s. snd (es_bulk ?pf (bulk_request_of (indexName ?rc) b) s)) batches
           (backend empty_index)"
    by auto
  from 2 3 docs
  have 4: "backend (snd (loadAndIndex ?pf sample_config ?rc empty_index))
     = [[(js ''namePrimary'', JStr (js ''Herzl'')), (js ''code'', JNum (Fin 12)),
         (js ''isDeleted'', JBool False)],
        [(js ''namePrimary'', JStr (js ''Allenby'')), (js ''isDeleted'', JBool False)],
        [(js ''namePrimary'', JStr (js ''Ben Yehuda'')), (js ''code'', JNum (Fin 12)),
         (js ''isDeleted'', JBool False)]]"
    by (simp add: storing_platform_fold empty_index_def)
  from loadAndIndex_count [of ?pf "sample_run (js ''empty.xlsx'')"
      "[]" "[]" sample_config empty_index "[hd sample_sheet]"] e
  have 5: "loadAndIndex ?pf sample_config (sample_run (js ''empty.xlsx'')) empty_index
     = (Inl (Error (js ''No data rows in sheet'')), empty_index)"
    by blast
  from 1 4 5 show ?thesis by blast
qed

section \<open>Query builder\<close>

text \<open>
  C1. For every query string and every mode, the built query is a bool query whose
  single \<^verbatim>\<open>must\<close> clause (the primary clause of the mode) is combined with the single
  filter \<^verbatim>\<open>term isDeleted = false\<close>: a document satisfies it exactly when it satisfies
  the primary clause and its \<^verbatim>\<open>isDeleted\<close> is \<^verbatim>\<open>false\<close>. So a document with
  \<^verbatim>\<open>isDeleted = true\<close> satisfies the query in no mode, whatever the primary clause
  matches.
\<close>

theorem buildEsQuery_filters_deleted:
  "(\<exists>primary. buildEsQuery q mode = BoolQuery [primary] [Term (js ''isDeleted'') (JBool False)] \<and>
      (satisfies text_match (buildEsQuery q mode) d \<longleftrightarrow>
         satisfies text_match primary d \<and> stored_field d (js ''isDeleted'') = JBool False)) \<and>
   (stored_field d (js ''isDeleted'') = JBool True \<longrightarrow> \<not> satisfies text_match (buildEsQuery q mode) d)"
  by (simp add: buildEsQuery_def Let_def)

theorem buildEsQuery_filters_deleted_witness:
  "stored_field [(js ''namePrimary'', JStr (js ''Herzl'')), (js ''isDeleted'', JBool True)]
     (js ''isDeleted'') = JBool True \<and>
   \<not> satisfies (\<lambda>c d. True) (buildEsQuery (js ''Herzl'') (js ''free''))
       [(js ''namePrimary'', JStr (js ''Herzl'')), (js ''isDeleted'', JBool True)] \<and>
   satisfies (\<lambda>c d. True) (buildEsQuery (js ''Herzl'') (js ''free''))
       [(js ''namePrimary'', JStr (js ''Herzl'')), (js ''isDeleted'', JBool False)]"
proof -
  have n: "js ''isDeleted'' \<noteq> js ''namePrimary''" by (simp add: js_def)
  have g: "stored_field [(js ''namePrimary'', v), (js ''isDeleted'', b)] (js ''isDeleted'') = b"
    for v b
    by (simp add: stored_field_def n)
  have s: "satisfies (\<lambda>c d. True) (buildEsQuery (js ''Herzl'') (js ''free''))
       [(js ''namePrimary'', JStr (js ''Herzl'')), (js ''isDeleted'', JBool False)]"
    by (simp add: buildEsQuery_def g)
  from buildEsQuery_filters_deleted [of "js ''Herzl''" "js ''free''" "\<lambda>c d. True"
      "[(js ''namePrimary'', JStr (js ''Herzl'')), (js ''isDeleted'', JBool True)]"] g s
  show ?thesis by simp
qed

text \<open>
  C2. The primary clause, the only \<^verbatim>\<open>must\<close> clause of the built query: in mode
  \<^verbatim>\<open>free\<close> a \<^verbatim>\<open>match\<close> on \<^verbatim>\<open>namePrimary\<close> alone, with the default operator; in mode
  \<^verbatim>\<open>any\<close> a \<^verbatim>\<open>match\<close> on \<^verbatim>\<open>allText\<close> with the operator \<^verbatim>\<open>or\<close>; in mode \<^verbatim>\<open>phrase\<close> a
  \<^verbatim>\<open>match_phrase\<close> on \<^verbatim>\<open>allText\<close>.
\<close>

theorem buildEsQuery_primary_clause:
  "must (buildEsQuery q (js ''free'')) = [Match (js ''namePrimary'') q None] \<and>
   must (buildEsQuery q (js ''any'')) = [Match (js ''allText'') q (Some OpOr)] \<and>
   must (buildEsQuery q (js ''phrase'')) = [MatchPhrase (js ''allText'') q]"
  by (simp add: buildEsQuery_def mode_literals_distinct)

theorem buildEsQuery_primary_clause_witness:
  "buildEsQuery (js ''Herzl'') (js ''any'') =
     BoolQuery [Match (js ''allText'') (js ''Herzl'') (Some OpOr)]
       [Term (js ''isDeleted'') (JBool False)]"
proof -
  obtain p where
    "buildEsQuery (js ''Herzl'') (js ''any'') = BoolQuery [p] [Term (js ''isDeleted'') (JBool False)]"
    by (simp add: buildEsQuery_def)
  with buildEsQuery_primary_clause [of "js ''Herzl''"] show ?thesis by simp
qed

section \<open>Search and delete handlers\<close>

text \<open>
  C8. For a query string that is empty or all white space (or missing), and every
  mode, the handler makes no call to the backend and builds no query: it leaves the
  world as it was. Its answer, with status 200, is the body \<^verbatim>\<open>{hits: []}\<close>: an object
  holding the empty hit list, not the empty list itself, which is the body of a search
  that finds nothing and the form the client reads every answer in.
\<close>

theorem search_handler_blank_query:
  "\<forall>c\<in>set q. is_ws c \<Longrightarrow>
     search_handler pf index (Some q) mode_param w = (Response 200 (HitsObject []), w) \<and>
     search_handler pf index None mode_param w = (Response 200 (HitsObject []), w) \<and>
     body (fst (search_handler pf index (Some q) mode_param w)) \<noteq> HitsArray [] \<and>
     calls (snd (search_handler pf index (Some q) mode_param w)) = calls w"
  by (simp add: search_handler_def trim_blank)

theorem search_handler_blank_query_witness:
  "search_handler sample_platform (js ''streets'') (Some (js ''  '')) (Some (js ''phrase''))
     sample_world = (Response 200 (HitsObject []), sample_world) \<and>
   search_handler sample_platform (js ''streets'') (Some []) None sample_world
     = (Response 200 (HitsObject []), sample_world)"
proof -
  have w: "\<forall>c\<in>set (js ''  ''). is_ws c" by (simp add: js_def is_ws_def)
  have e: "\<forall>c\<in>set ([] :: jsstring). is_ws c" by simp
  from search_handler_blank_query [OF w] search_handler_blank_query [OF e]
  show ?thesis by blast
qed

text \<open>
  The sibling path: a search that reaches the backend and finds nothing (no hit, or no
  hit list at all) answers with the bare empty array.
\<close>

lemma search_handler_no_hits:
  "trim q \<noteq> [] \<Longrightarrow> \<forall>req s. fst (es_search pf req s) \<in> {Inr (Some []), Inr None} \<Longrightarrow>
   fst (search_handler pf index (Some q) mode_param w) = Response 200 (HitsArray [])"
proof -
  assume q: "trim q \<noteq> []" and h: "\<forall>req s. fst (es_search pf req s) \<in> {Inr (Some []), Inr None}"
  have "fst (case es_search pf req (backend w) of
               (r, s) \<Rightarrow>
                 (case r of
                    Inl err \<Rightarrow>
                      (Response 500 (ErrorBody (js ''Search failed'') (Some (error_message err))),
                       \<lparr>backend = s, calls = calls w @ [SearchCall req]\<rparr>)
                  | Inr hs \<Rightarrow>
                      (Response 200
                         (HitsArray (map hit_to_json (case hs of None \<Rightarrow> [] | Some l \<Rightarrow> l))),
                       \<lparr>backend = s, calls = calls w @ [SearchCall req]\<rparr>)))
          = Response 200 (HitsArray [])" for req
  proof (cases "es_search pf req (backend w)")
    case (Pair r s)
    with h have "r = Inr (Some []) \<or> r = Inr None" by (metis fst_conv insert_iff singletonD)
    with Pair show ?thesis by auto
  qed
  with q show ?thesis by (simp add: search_handler_def Let_def)
qed

text \<open>What the handler does otherwise: one search call, with the query of the mode.\<close>

lemma search_handler_calls:
  "trim q \<noteq> [] \<Longrightarrow>
   calls (snd (search_handler pf index (Some q) mode_param w)) =
     calls w @
     [SearchCall
        \<lparr>s_index = index, s_size = 200,
         s_query = buildEsQuery (trim q)
           (let m = trim (case mode_param of None \<Rightarrow> js ''free'' | Some s \<Rightarrow> s)
            in if m \<in> {js ''free'', js ''any'', js ''phrase''} then m else js ''free''),
         s_source = [js ''namePrimary'', js ''title'', js ''nameSecondary'',
                     js ''group'', js ''kind'', js ''neighborhood'']\<rparr>]"
  by (simp add: search_handler_def Let_def split: prod.splits sum.splits)

text \<open>
  C7, as amended. For every query string and every mode string whose trimmed form is
  none of \<^verbatim>\<open>free\<close>, \<^verbatim>\<open>any\<close>, \<^verbatim>\<open>phrase\<close> (such as \<^verbatim>\<open>fuzzy\<close>), the handler does what it
  does for the mode \<^verbatim>\<open>free\<close>, and for a missing mode: the same call to the backend and the
  same response.
\<close>

theorem search_handler_unknown_mode:
  "trim m \<notin> {js ''free'', js ''any'', js ''phrase''} \<Longrightarrow>
     search_handler pf index q_param (Some m) w
       = search_handler pf index q_param (Some (js ''free'')) w \<and>
     search_handler pf index q_param (Some m) w = search_handler pf index q_param None w"
  by (simp add: search_handler_def trim_literals Let_def)

theorem search_handler_unknown_mode_witness:
  "search_handler sample_platform (js ''streets'') (Some (js ''Herzl'')) (Some (js ''fuzzy''))
     sample_world
   = search_handler sample_platform (js ''streets'') (Some (js ''Herzl'')) (Some (js ''free''))
     sample_world"
proof -
  have "trim (js ''fuzzy'') = js ''fuzzy''" by (simp add: trim_def js_def is_ws_def)
  then have "trim (js ''fuzzy'') \<notin> {js ''free'', js ''any'', js ''phrase''}"
    by (simp add: js_def)
  from search_handler_unknown_mode [OF this] show ?thesis by blast
qed

text \<open>
  As the claim states it, for every mode string outside the three names, it fails: the
  handler trims the mode, so the mode string \<^verbatim>\<open>" any"\<close> is searched in mode \<^verbatim>\<open>any\<close>, with
  another query than mode \<^verbatim>\<open>free\<close>.
\<close>

theorem search_handler_unknown_mode_counterexample:
  "\<not> (\<forall>(pf :: unit platform) index q m w.
        q \<noteq> [] \<and> m \<notin> {js ''free'', js ''any'', js ''phrase''} \<longrightarrow>
        search_handler pf index (Some q) (Some m) w
          = search_handler pf index (Some q) (Some (js ''free'')) w)"
proof
  assume a: "\<forall>(pf :: unit platform) index q m w.
        q \<noteq> [] \<and> m \<notin> {js ''free'', js ''any'', js ''phrase''} \<longrightarrow>
        search_handler pf index (Some q) (Some m) w
          = search_handler pf index (Some q) (Some (js ''free'')) w"
  have q: "js ''Herzl'' \<noteq> []" "trim (js ''Herzl'') \<noteq> []"
    by (simp_all add: trim_def js_def is_ws_def)
  have m: "js '' any'' \<notin> {js ''free'', js ''any'', js ''phrase''}"
    by (simp add: js_def)
  from a q m have "search_handler sample_platform (js ''streets'') (Some (js ''Herzl''))
        (Some (js '' any'')) sample_world
      = search_handler sample_platform (js ''streets'') (Some (js ''Herzl''))
        (Some (js ''free'')) sample_world"
    by blast
  then have "calls (snd (search_handler sample_platform (js ''streets'') (Some (js ''Herzl''))
        (Some (js '' any'')) sample_world))
      = calls (snd (search_handler sample_platform (js ''streets'') (Some (js ''Herzl''))
        (Some (js ''free'')) sample_world))"
    by simp
  then have "buildEsQuery (trim (js ''Herzl'')) (js ''any'')
      = buildEsQuery (trim (js ''Herzl'')) (js ''free'')"
    by (simp add: search_handler_calls [OF q(2)] trim_literals mode_literals_distinct)
  then show False
    by (simp add: buildEsQuery_def mode_literals_distinct)
qed

text \<open>
  C9. For a delete request whose identifier is missing, empty or all white space, the
  handler answers 400 with \<^verbatim>\<open>Missing id\<close> and leaves the world as it was: no update is
  attempted and the backend's state is unchanged.
\<close>

theorem delete_handler_missing_id:
  "\<forall>c\<in>set ident. is_ws c \<Longrightarrow>
     delete_handler pf index (Some ident) w
       = (Response 400 (ErrorBody (js ''Missing id'') None), w) \<and>
     delete_handler pf index None w = (Response 400 (ErrorBody (js ''Missing id'') None), w)"
  by (simp add: delete_handler_def trim_blank)

theorem delete_handler_missing_id_witness:
  "delete_handler sample_platform (js ''streets'') (Some (js '' '')) sample_world
     = (Response 400 (ErrorBody (js ''Missing id'') None), sample_world) \<and>
   delete_handler sample_platform (js ''streets'') None sample_world
     = (Response 400 (ErrorBody (js ''Missing id'') None), sample_world)"
proof -
  have w: "\<forall>c\<in>set (js '' ''). is_ws c" by (simp add: js_def is_ws_def)
  from delete_handler_missing_id [OF w] show ?thesis by blast
qed

text \<open>With an identifier, the handler does attempt the update: the 400 is the only path
  without a call.\<close>

lemma delete_handler_calls:
  "trim ident \<noteq> [] \<Longrightarrow>
   calls (snd (delete_handler pf index (Some ident) w)) =
     calls w @
     [UpdateCall \<lparr>u_index = index, u_id = trim ident,
                  u_doc = [(js ''isDeleted'', JBool True)], u_refresh = True\<rparr>]"
  by (simp add: delete_handler_def Let_def split: prod.splits option.splits)

end
